theory Spec2Isabelle
  imports Main "HOL-Library.Multiset"
begin

section \<open>Values, errors and panics\<close>

text \<open>
  Go's fixed-width integers are modelled as \<open>int\<close>; where the source converts between
  widths or adds within a width, the wrap-around is written out. Byte slices and Go strings
  are \<open>string\<close> (lists of 8-bit characters).
\<close>

definition int32 :: "int \<Rightarrow> int" where
  "int32 x = signed_take_bit 31 x"

definition MaxInt64 :: int where
  "MaxInt64 = 2 ^ 63 - 1"

type_synonym Time = int

text \<open>The wall clock: \<open>clock n\<close> is what the \<open>n\<close>-th coming call of \<open>time.Now()\<close> reads.\<close>

type_synonym Clock = "nat \<Rightarrow> Time"

definition time_Now :: "Clock \<Rightarrow> Time \<times> Clock" where
  "time_Now clock = (clock 0, \<lambda>n. clock (Suc n))"

text \<open>
  The error values of the package. \<open>External\<close> is an error handed back by a collaborator
  (the codec, the database session); the others are built by \<open>errors.New\<close> and
  \<open>errors.Errorf\<close> in \<open>TransactionsQ.Select\<close>, and \<open>Error\<close> gives their message.
\<close>

datatype error =
    External string
  | DestIsNotTransactions
  | IncludeFailedFalseButFlagFailed string
  | IncludeFailedFalseButResultFailed string string
  | SuccessfulTrueButNotSuccess string string
  | SuccessfulFalseButSuccess string string

fun Error :: "error \<Rightarrow> string" where
  "Error (External msg) = msg"
| "Error DestIsNotTransactions = ''dest is not *[]Transaction''"
| "Error (IncludeFailedFalseButFlagFailed h) =
     ''Corrupted data! `include_failed=false` but returned transaction is failed: '' @ h"
| "Error (IncludeFailedFalseButResultFailed h r) =
     ''Corrupted data! `include_failed=false` but returned transaction is failed: '' @ h @ '' '' @ r"
| "Error (SuccessfulTrueButNotSuccess h r) =
     ''Corrupted data! `successful=true` but returned transaction is not success: '' @ h @ '' '' @ r"
| "Error (SuccessfulFalseButSuccess h r) =
     ''Corrupted data! `successful=false` but returned transaction is success: '' @ h @ '' '' @ r"

fun is_data_corruption :: "error \<Rightarrow> bool" where
  "is_data_corruption (External msg) = False"
| "is_data_corruption DestIsNotTransactions = False"
| "is_data_corruption (IncludeFailedFalseButFlagFailed h) = True"
| "is_data_corruption (IncludeFailedFalseButResultFailed h r) = True"
| "is_data_corruption (SuccessfulTrueButNotSuccess h r) = True"
| "is_data_corruption (SuccessfulFalseButSuccess h r) = True"

datatype panic =
    InvalidMemoType int
  | ArmNotSet string
  | InvalidLedgerSequence
  | TransactionOrderOverflow
  | OperationOrderOverflow

text \<open>A call returns a value, returns an error, or panics.\<close>

datatype 'a outcome = Returned 'a | Failed error | Panicked panic

fun bind_outcome :: "'a outcome \<Rightarrow> ('a \<Rightarrow> 'b outcome) \<Rightarrow> 'b outcome" where
  "bind_outcome (Returned x) f = f x"
| "bind_outcome (Failed e) f = Failed e"
| "bind_outcome (Panicked p) f = Panicked p"

fun of_result :: "error + 'a \<Rightarrow> 'a outcome" where
  "of_result (Inl e) = Failed e"
| "of_result (Inr x) = Returned x"

text \<open>What a Go \<open>interface{}\<close> holds in the column maps and query arguments of this package.\<close>

datatype any_value =
    NilValue
  | Bool bool
  | Int32 int
  | Uint32 int
  | Int64 int
  | Uint64 int
  | String string
  | StringArray "string list"
  | NullString string bool
  | TimeValue Time
  | Expr string "any_value list"

section \<open>The ledger transaction read by the normalizer\<close>

text \<open>
  Modelled from the spec: the decoded structures of package \<open>xdr\<close> and of
  \<open>io.LedgerTransaction\<close> (their declarations are not part of the sources at hand), with
  the fields section 6 of the specification lists and \<open>transaction.go\<close> reads. A memo is
  a tagged union held as a type tag with one optional arm per variant, so a tag outside the
  five known ones is a value of the type. Operations, metadata, fee changes and account ids
  are opaque to this package.
\<close>

datatype xdr_AccountId = AccountId string
datatype xdr_Operation = Operation string
datatype xdr_TransactionMeta = TransactionMeta string
datatype xdr_LedgerEntryChanges = LedgerEntryChanges string

record xdr_TimeBounds =
  MinTime :: int
  MaxTime :: int

record xdr_Memo =
  Type :: int
  Text :: "string option"
  Id' :: "int option"
  Hash :: "string option"
  RetHash :: "string option"

definition MemoTypeMemoNone :: int where "MemoTypeMemoNone = 0"
definition MemoTypeMemoText :: int where "MemoTypeMemoText = 1"
definition MemoTypeMemoId :: int where "MemoTypeMemoId = 2"
definition MemoTypeMemoHash :: int where "MemoTypeMemoHash = 3"
definition MemoTypeMemoReturn :: int where "MemoTypeMemoReturn = 4"

definition known_memo_type :: "int \<Rightarrow> bool" where
  "known_memo_type t \<longleftrightarrow>
     t = MemoTypeMemoNone \<or> t = MemoTypeMemoText \<or> t = MemoTypeMemoId
     \<or> t = MemoTypeMemoHash \<or> t = MemoTypeMemoReturn"

text \<open>The \<open>Must\<close> accessors of the union panic when the arm they read holds no value.\<close>

definition MustText :: "xdr_Memo \<Rightarrow> string outcome" where
  "MustText u = (case Text u of None \<Rightarrow> Panicked (ArmNotSet ''Text'') | Some v \<Rightarrow> Returned v)"

definition MustId :: "xdr_Memo \<Rightarrow> int outcome" where
  "MustId u = (case Id' u of None \<Rightarrow> Panicked (ArmNotSet ''Id'') | Some v \<Rightarrow> Returned v)"

definition MustHash :: "xdr_Memo \<Rightarrow> string outcome" where
  "MustHash u = (case Hash u of None \<Rightarrow> Panicked (ArmNotSet ''Hash'') | Some v \<Rightarrow> Returned v)"

definition MustRetHash :: "xdr_Memo \<Rightarrow> string outcome" where
  "MustRetHash u =
     (case RetHash u of None \<Rightarrow> Panicked (ArmNotSet ''RetHash'') | Some v \<Rightarrow> Returned v)"

record xdr_DecoratedSignature =
  Hint :: string
  Signature :: string

record xdr_Transaction =
  SourceAccount :: xdr_AccountId
  Fee :: int
  SeqNum :: int
  TimeBounds :: "xdr_TimeBounds option"
  Memo :: xdr_Memo
  Operations :: "xdr_Operation list"

record xdr_TransactionEnvelope =
  Tx :: xdr_Transaction
  Signatures :: "xdr_DecoratedSignature list"

record xdr_TransactionResultResult =
  Code :: int

definition TransactionResultCodeTxSuccess :: int where
  "TransactionResultCodeTxSuccess = 0"

record xdr_TransactionResult =
  FeeCharged :: int
  TransactionResult_Result :: xdr_TransactionResultResult

record xdr_TransactionResultPair =
  TransactionResultPair_TransactionHash :: string
  TransactionResultPair_Result :: xdr_TransactionResult

record LedgerTransaction =
  Index :: int
  Envelope :: xdr_TransactionEnvelope
  Result :: xdr_TransactionResultPair
  Meta :: xdr_TransactionMeta
  FeeChanges :: xdr_LedgerEntryChanges

section \<open>The order key of package toid\<close>

text \<open>
  Modelled from the spec: \<open>toid.ID\<close>, \<open>toid.New\<close> and \<open>ID.ToInt64\<close> (package
  \<open>toid\<close> is not part of the sources at hand). Section 4.2 of the specification packs
  (ledger sequence, transaction index, operation index) into a signed 64-bit key with the
  ledger sequence in the most significant bits, valid inputs being bounded; here the ledger
  sequence takes the upper 32 bits, the transaction order the next 20 and the operation
  order the lowest 12, and an input outside these bounds panics.
\<close>

record toid_ID =
  LedgerSequence :: int
  TransactionOrder :: int
  OperationOrder :: int

definition TransactionMask :: int where "TransactionMask = 2 ^ 20 - 1"
definition OperationMask :: int where "OperationMask = 2 ^ 12 - 1"

definition pack :: "int \<Rightarrow> int \<Rightarrow> int \<Rightarrow> int" where
  "pack ledgerSeq txIndex opIndex = ledgerSeq * 2 ^ 32 + txIndex * 2 ^ 12 + opIndex"

definition toid_New :: "int \<Rightarrow> int \<Rightarrow> int \<Rightarrow> toid_ID" where
  "toid_New ledger tx op' =
     \<lparr>LedgerSequence = ledger, TransactionOrder = tx, OperationOrder = op'\<rparr>"

definition ToInt64 :: "toid_ID \<Rightarrow> int outcome" where
  "ToInt64 k =
     (if LedgerSequence k < 0 then Panicked InvalidLedgerSequence
      else if TransactionOrder k > TransactionMask then Panicked TransactionOrderOverflow
      else if OperationOrder k > OperationMask then Panicked OperationOrderOverflow
      else Returned
        (pack (LedgerSequence k)
           (TransactionOrder k mod (TransactionMask + 1))
           (OperationOrder k mod (OperationMask + 1))))"

section \<open>The collaborators of the package\<close>

text \<open>
  The codec (\<open>xdr.MarshalBase64\<close>, \<open>xdr.SafeUnmarshalBase64\<close>, \<open>AccountId.Address\<close>),
  the encoders of the standard library, \<open>utf8.Scrub\<close> and the database session behind
  \<open>Q\<close> lie outside the sources at hand. A function that calls one of them takes them as
  the record \<open>externals\<close>. Within one call the database answers a query with an error or
  with rows.
\<close>

record Account =
  Account_ID :: int

record SelectBuilder =
  Columns :: string
  From :: string
  Joins :: "string list"
  WhereParts :: "(string \<times> any_value list) list"

text \<open>
  The \<open>Transaction\<close> struct of package history, with the fields \<open>transaction.go\<close> reads:
  the order key, the hash, the stored result payload and the nullable success flag.
\<close>

record Transaction =
  ID :: int
  TransactionHash :: string
  TxResult :: string
  Successful :: "bool option"

record externals =
  MarshalBase64_Envelope :: "xdr_TransactionEnvelope \<Rightarrow> error + string"
  MarshalBase64_Result :: "xdr_TransactionResult \<Rightarrow> error + string"
  MarshalBase64_Meta :: "xdr_TransactionMeta \<Rightarrow> error + string"
  MarshalBase64_FeeChanges :: "xdr_LedgerEntryChanges \<Rightarrow> error + string"
  SafeUnmarshalBase64_Result :: "string \<Rightarrow> error + xdr_TransactionResult"
  Address :: "xdr_AccountId \<Rightarrow> string"
  base64_EncodeToString :: "string \<Rightarrow> string"
  hex_EncodeToString :: "string \<Rightarrow> string"
  FormatInt10 :: "int \<Rightarrow> string"
  utf8_Scrub :: "string \<Rightarrow> string"
  AccountByAddress :: "string \<Rightarrow> error + Account"
  LedgerBySequence :: "int \<Rightarrow> error option"
  parent_Select :: "SelectBuilder \<Rightarrow> error + Transaction list"

section \<open>The row normalizer\<close>

definition formatTimeBounds :: "LedgerTransaction \<Rightarrow> any_value" where
  "formatTimeBounds transaction =
     (case TimeBounds (Tx (Envelope transaction)) of
        None \<Rightarrow> NilValue
      | Some tb \<Rightarrow>
          if MaxTime tb = 0 then Expr ''int8range(?,?)'' [Uint64 (MinTime tb), NilValue]
          else
            let maxTime = MaxTime tb;
                maxTime = (if maxTime > MaxInt64 then MaxInt64 else maxTime)
            in Expr ''int8range(?,?)'' [Uint64 (MinTime tb), Uint64 maxTime])"

definition signatures :: "externals \<Rightarrow> LedgerTransaction \<Rightarrow> string list" where
  "signatures ext transaction =
     map (\<lambda>sig. base64_EncodeToString ext (Signature sig)) (Signatures (Envelope transaction))"

definition memoType :: "LedgerTransaction \<Rightarrow> string outcome" where
  "memoType transaction =
     (let t = Type (Memo (Tx (Envelope transaction))) in
      if t = MemoTypeMemoNone then Returned ''none''
      else if t = MemoTypeMemoText then Returned ''text''
      else if t = MemoTypeMemoId then Returned ''id''
      else if t = MemoTypeMemoHash then Returned ''hash''
      else if t = MemoTypeMemoReturn then Returned ''return''
      else Panicked (InvalidMemoType t))"

text \<open>
  \<open>strings.Split\<close> for the one-byte separator \<open>memo\<close> passes, and \<open>strings.Join\<close>:
  splitting the empty string gives one empty piece.
\<close>

fun strings_Split :: "string \<Rightarrow> char \<Rightarrow> string list" where
  "strings_Split [] sep = [[]]"
| "strings_Split (c # cs) sep =
     (if c = sep then [] # strings_Split cs sep
      else (case strings_Split cs sep of
              [] \<Rightarrow> [[c]]
            | w # ws \<Rightarrow> (c # w) # ws))"

fun strings_Join :: "string list \<Rightarrow> string \<Rightarrow> string" where
  "strings_Join [] sep = []"
| "strings_Join [x] sep = x"
| "strings_Join (x # y # ys) sep = x @ sep @ strings_Join (y # ys) sep"

definition NUL :: char where
  "NUL = CHR 0x00"

definition memo :: "externals \<Rightarrow> LedgerTransaction \<Rightarrow> any_value outcome" where
  "memo ext transaction =
     (let m = Memo (Tx (Envelope transaction)); t = Type m in
      if t = MemoTypeMemoNone then Returned (NullString [] False)
      else if t = MemoTypeMemoText then
        bind_outcome (MustText m) (\<lambda>text.
          let scrubbed = utf8_Scrub ext text;
              notnull = strings_Join (strings_Split scrubbed NUL) []
          in Returned (NullString notnull True))
      else if t = MemoTypeMemoId then
        bind_outcome (MustId m) (\<lambda>v. Returned (NullString (FormatInt10 ext v) True))
      else if t = MemoTypeMemoHash then
        bind_outcome (MustHash m) (\<lambda>hash.
          Returned (NullString (base64_EncodeToString ext hash) True))
      else if t = MemoTypeMemoReturn then
        bind_outcome (MustRetHash m) (\<lambda>hash.
          Returned (NullString (base64_EncodeToString ext hash) True))
      else Panicked (InvalidMemoType t))"

text \<open>
  The column map is built after the four payloads are serialized; its entries are evaluated
  in the order written, so the order key, the memo type and the memo can each panic, and the
  clock is read twice, once for \<open>created_at\<close> and once more for \<open>updated_at\<close>.
\<close>

definition transactionToMap ::
  "externals \<Rightarrow> Clock \<Rightarrow> LedgerTransaction \<Rightarrow> int \<Rightarrow> (string \<rightharpoonup> any_value) outcome" where
  "transactionToMap ext clock transaction sequence =
     bind_outcome (of_result (MarshalBase64_Envelope ext (Envelope transaction)))
       (\<lambda>envelopeBase64.
     bind_outcome (of_result (MarshalBase64_Result ext
                     (TransactionResultPair_Result (Result transaction))))
       (\<lambda>resultBase64.
     bind_outcome (of_result (MarshalBase64_Meta ext (Meta transaction)))
       (\<lambda>metaBase64.
     bind_outcome (of_result (MarshalBase64_FeeChanges ext (FeeChanges transaction)))
       (\<lambda>feeMetaBase64.
     bind_outcome (ToInt64 (toid_New (int32 sequence) (int32 (Index transaction)) 0))
       (\<lambda>key.
     bind_outcome (memoType transaction)
       (\<lambda>memo_type.
     bind_outcome (memo ext transaction)
       (\<lambda>memo_value.
     let (created_at, clock1) = time_Now clock;
         (updated_at, clock2) = time_Now clock1
     in Returned (map_of
       [(''id'', Int64 key),
        (''transaction_hash'',
           String (hex_EncodeToString ext
             (TransactionResultPair_TransactionHash (Result transaction)))),
        (''ledger_sequence'', Uint32 sequence),
        (''application_order'', Int32 (int32 (Index transaction))),
        (''account'', String (Address ext (SourceAccount (Tx (Envelope transaction))))),
        (''account_sequence'', String (FormatInt10 ext (SeqNum (Tx (Envelope transaction))))),
        (''max_fee'', Int32 (int32 (Fee (Tx (Envelope transaction))))),
        (''fee_charged'',
           Int32 (int32 (FeeCharged (TransactionResultPair_Result (Result transaction))))),
        (''operation_count'',
           Int32 (int32 (int (length (Operations (Tx (Envelope transaction))))))),
        (''tx_envelope'', String envelopeBase64),
        (''tx_result'', String resultBase64),
        (''tx_meta'', String metaBase64),
        (''tx_fee_meta'', String feeMetaBase64),
        (''signatures'', StringArray (signatures ext transaction)),
        (''time_bounds'', formatTimeBounds transaction),
        (''memo_type'', String memo_type),
        (''memo'', memo_value),
        (''created_at'', TimeValue created_at),
        (''updated_at'', TimeValue updated_at),
        (''successful'',
           Bool (Code (TransactionResult_Result
                   (TransactionResultPair_Result (Result transaction)))
                 = TransactionResultCodeTxSuccess))]))))))))"

section \<open>Reading transactions: the filter object\<close>

definition IsSuccessful :: "Transaction \<Rightarrow> bool" where
  "IsSuccessful t = (case Successful t of None \<Rightarrow> True | Some b \<Rightarrow> b)"

text \<open>
  The part of the query builder the package uses: \<open>Join\<close> and \<open>Where\<close> append a clause,
  and \<open>ToSql\<close> joins the \<open>WHERE\<close> parts with \<open>AND\<close> in the order they were added.
\<close>

definition sq_Join :: "SelectBuilder \<Rightarrow> string \<Rightarrow> SelectBuilder" where
  "sq_Join b j = b\<lparr>Joins := Joins b @ [''JOIN '' @ j]\<rparr>"

definition sq_Where :: "SelectBuilder \<Rightarrow> string \<Rightarrow> any_value list \<Rightarrow> SelectBuilder" where
  "sq_Where b pred args = b\<lparr>WhereParts := WhereParts b @ [(pred, args)]\<rparr>"

definition ToSql :: "SelectBuilder \<Rightarrow> string" where
  "ToSql b =
     ''SELECT '' @ Columns b @ '' FROM '' @ From b
     @ concat (map (\<lambda>j. '' '' @ j) (Joins b))
     @ (if WhereParts b = [] then []
        else '' WHERE '' @ strings_Join (map fst (WhereParts b)) '' AND '')"

definition selectTransaction :: SelectBuilder where
  "selectTransaction =
     \<lparr>Columns =
        ''ht.id, '' @
        ''ht.transaction_hash, '' @
        ''ht.ledger_sequence, '' @
        ''ht.application_order, '' @
        ''ht.account, '' @
        ''ht.account_sequence, '' @
        ''ht.max_fee, '' @
        ''COALESCE(ht.fee_charged, ht.max_fee) as fee_charged, '' @
        ''ht.operation_count, '' @
        ''ht.tx_envelope, '' @
        ''ht.tx_result, '' @
        ''ht.tx_meta, '' @
        ''ht.tx_fee_meta, '' @
        ''ht.created_at, '' @
        ''ht.updated_at, '' @
        ''ht.successful, '' @
        ''array_to_string(ht.signatures, ',') AS signatures, '' @
        ''ht.memo_type, '' @
        ''ht.memo, '' @
        ''lower(ht.time_bounds) AS valid_after, '' @
        ''upper(ht.time_bounds) AS valid_before, '' @
        ''hl.closed_at AS ledger_close_time'',
      From = ''history_transactions ht'',
      Joins = [''LEFT JOIN history_ledgers hl ON ht.ledger_sequence = hl.sequence''],
      WhereParts = []\<rparr>"

record TransactionsQ =
  sql :: SelectBuilder
  includeFailed :: bool
  Err :: "error option"

definition Transactions :: TransactionsQ where
  "Transactions = \<lparr>sql = selectTransaction, includeFailed = False, Err = None\<rparr>"

definition ForAccount :: "externals \<Rightarrow> TransactionsQ \<Rightarrow> string \<Rightarrow> TransactionsQ" where
  "ForAccount ext q aid =
     (case AccountByAddress ext aid of
        Inl e \<Rightarrow> q\<lparr>Err := Some e\<rparr>
      | Inr account \<Rightarrow>
          q\<lparr>Err := None,
            sql := sq_Where
              (sq_Join (sql q)
                 ''history_transaction_participants htp ON htp.history_transaction_id = ht.id'')
              ''htp.history_account_id = ?'' [Int64 (Account_ID account)]\<rparr>)"

text \<open>
  \<open>seq\<close> is an \<open>int32\<close>, so \<open>seq + 1\<close> wraps; the two keys come from \<open>ToInt64\<close>, which
  can panic.
\<close>

definition ForLedger :: "externals \<Rightarrow> TransactionsQ \<Rightarrow> int \<Rightarrow> TransactionsQ outcome" where
  "ForLedger ext q seq =
     (case LedgerBySequence ext seq of
        Some e \<Rightarrow> Returned (q\<lparr>Err := Some e\<rparr>)
      | None \<Rightarrow>
          let start = \<lparr>LedgerSequence = seq, TransactionOrder = 0, OperationOrder = 0\<rparr>;
              end' = \<lparr>LedgerSequence = int32 (seq + 1), TransactionOrder = 0,
                      OperationOrder = 0\<rparr>
          in bind_outcome (ToInt64 start) (\<lambda>lo.
             bind_outcome (ToInt64 end') (\<lambda>hi.
               Returned (q\<lparr>Err := None,
                 sql := sq_Where (sql q) ''ht.id >= ? AND ht.id < ?'' [Int64 lo, Int64 hi]\<rparr>))))"

definition IncludeFailed :: "TransactionsQ \<Rightarrow> TransactionsQ" where
  "IncludeFailed q = q\<lparr>includeFailed := True\<rparr>"

definition successPredicate :: string where
  "successPredicate = ''(ht.successful = true OR ht.successful IS NULL)''"

text \<open>The body of the loop of \<open>Select\<close> for one fetched row, and the loop.\<close>

definition Select_check :: "externals \<Rightarrow> bool \<Rightarrow> Transaction \<Rightarrow> error option" where
  "Select_check ext incl t =
     (case SafeUnmarshalBase64_Result ext (TxResult t) of
        Inl err \<Rightarrow> Some err
      | Inr resultXDR \<Rightarrow>
          if \<not> incl \<and> \<not> IsSuccessful t
            then Some (IncludeFailedFalseButFlagFailed (TransactionHash t))
          else if \<not> incl
                  \<and> Code (TransactionResult_Result resultXDR) \<noteq> TransactionResultCodeTxSuccess
            then Some (IncludeFailedFalseButResultFailed (TransactionHash t) (TxResult t))
          else if IsSuccessful t
                  \<and> Code (TransactionResult_Result resultXDR) \<noteq> TransactionResultCodeTxSuccess
            then Some (SuccessfulTrueButNotSuccess (TransactionHash t) (TxResult t))
          else if \<not> IsSuccessful t
                  \<and> Code (TransactionResult_Result resultXDR) = TransactionResultCodeTxSuccess
            then Some (SuccessfulFalseButSuccess (TransactionHash t) (TxResult t))
          else None)"

fun Select_loop :: "externals \<Rightarrow> bool \<Rightarrow> Transaction list \<Rightarrow> error option" where
  "Select_loop ext incl [] = None"
| "Select_loop ext incl (t # ts) =
     (case Select_check ext incl t of
        Some err \<Rightarrow> Some err
      | None \<Rightarrow> Select_loop ext incl ts)"

text \<open>
  The destination is a pointer to a slice of \<open>Transaction\<close> or to something else. \<open>Select\<close>
  returns its error, and leaves the filter object and the destination updated.
\<close>

datatype Dest = TransactionsDest "Transaction list" | OtherDest

definition Select ::
  "externals \<Rightarrow> TransactionsQ \<Rightarrow> Dest \<Rightarrow> error option \<times> TransactionsQ \<times> Dest" where
  "Select ext q dest =
     (case Err q of
        Some e \<Rightarrow> (Some e, q, dest)
      | None \<Rightarrow>
          let q1 = (if \<not> includeFailed q
                    then q\<lparr>sql := sq_Where (sql q) successPredicate []\<rparr> else q)
          in (case parent_Select ext (sql q1) of
                Inl e \<Rightarrow> (Some e, q1\<lparr>Err := Some e\<rparr>, dest)
              | Inr rows \<Rightarrow>
                  (case dest of
                     OtherDest \<Rightarrow> (Some DestIsNotTransactions, q1\<lparr>Err := None\<rparr>, dest)
                   | TransactionsDest old \<Rightarrow>
                       (Select_loop ext (includeFailed q1) rows, q1\<lparr>Err := None\<rparr>,
                        TransactionsDest rows))))"

section \<open>Scrubbing text\<close>

text \<open>
  Modelled from the spec: \<open>utf8.Scrub\<close> (package \<open>utf8\<close> of the repository is not part
  of the sources at hand). Section 4.1 of the specification has the text memo decoded with
  every invalid-encoding sequence replaced by a safe substitute: a well-formed UTF-8
  sequence is kept, and a byte that starts none is replaced by the encoding of U+FFFD.
\<close>

definition byte :: "char \<Rightarrow> nat" where
  "byte c = of_char c"

definition continuation :: "char \<Rightarrow> bool" where
  "continuation c \<longleftrightarrow> 0x80 \<le> byte c \<and> byte c \<le> 0xBF"

definition second_byte_ok :: "nat \<Rightarrow> char \<Rightarrow> bool" where
  "second_byte_ok lead c \<longleftrightarrow>
     (if lead = 0xE0 then 0xA0 else if lead = 0xF0 then 0x90 else 0x80) \<le> byte c
     \<and> byte c \<le> (if lead = 0xED then 0x9F else if lead = 0xF4 then 0x8F else 0xBF)"

fun rune_width :: "string \<Rightarrow> nat" where
  "rune_width [] = 0"
| "rune_width (a # rest) =
     (let x = byte a in
      if x < 0x80 then 1
      else if 0xC2 \<le> x \<and> x \<le> 0xDF then
        (case rest of
           b # _ \<Rightarrow> if continuation b then 2 else 0
         | _ \<Rightarrow> 0)
      else if 0xE0 \<le> x \<and> x \<le> 0xEF then
        (case rest of
           b # c # _ \<Rightarrow> if second_byte_ok x b \<and> continuation c then 3 else 0
         | _ \<Rightarrow> 0)
      else if 0xF0 \<le> x \<and> x \<le> 0xF4 then
        (case rest of
           b # c # d # _ \<Rightarrow>
             if second_byte_ok x b \<and> continuation c \<and> continuation d then 4 else 0
         | _ \<Rightarrow> 0)
      else 0)"

definition RuneError :: string where
  "RuneError = [CHR 0xEF, CHR 0xBF, CHR 0xBD]"

function Scrub :: "string \<Rightarrow> string" where
  "Scrub [] = []"
| "Scrub (c # cs) =
     (let n = rune_width (c # cs) in
      if n = 0 then RuneError @ Scrub cs
      else take n (c # cs) @ Scrub (drop n (c # cs)))"
  by pat_completeness auto
termination
  by (relation "measure length") auto

section \<open>The consistency check of the shadow table\<close>

text \<open>
  Modelled from the spec: \<open>Q.CheckExpTransactions\<close> (only its test is part of the sources
  at hand). It follows the algorithm of section 4.5 of the specification over the rows of
  section 3: the rows of the ledger's key range are read from both tables ordered by id, a
  difference in size is invalid, and otherwise the rows are compared one by one, column by
  column. The two timestamps are left out of the comparison, since
  \<open>TestCheckExpTransactions\<close> inserts each transaction into the two tables at different
  times and expects a valid verdict. The store is handed back unchanged.
\<close>

record TransactionRow =
  row_id :: int
  row_hash :: string
  row_ledgerSequence :: int
  row_applicationOrder :: int
  row_sourceAccount :: string
  row_sourceAccountSequence :: string
  row_feeMax :: int
  row_feeCharged :: "int option"
  row_operationCount :: int
  row_envelopeBlob :: string
  row_resultBlob :: string
  row_metaBlob :: string
  row_feeChangesBlob :: string
  row_signatures :: "string list"
  row_validAfter :: "int option"
  row_validBefore :: "int option"
  row_memoType :: string
  row_memoValue :: "string option"
  row_successful :: "bool option"
  row_createdAt :: Time
  row_updatedAt :: Time

record Store =
  history_transactions :: "TransactionRow list"
  exp_history_transactions :: "TransactionRow list"

definition in_ledger :: "int \<Rightarrow> TransactionRow \<Rightarrow> bool" where
  "in_ledger seq r \<longleftrightarrow> pack seq 0 0 \<le> row_id r \<and> row_id r < pack (seq + 1) 0 0"

definition ledger_rows :: "TransactionRow list \<Rightarrow> int \<Rightarrow> TransactionRow list" where
  "ledger_rows table seq = sort_key row_id (filter (in_ledger seq) table)"

definition row_equal :: "TransactionRow \<Rightarrow> TransactionRow \<Rightarrow> bool" where
  "row_equal a b \<longleftrightarrow>
     row_id a = row_id b
     \<and> row_hash a = row_hash b
     \<and> row_ledgerSequence a = row_ledgerSequence b
     \<and> row_applicationOrder a = row_applicationOrder b
     \<and> row_sourceAccount a = row_sourceAccount b
     \<and> row_sourceAccountSequence a = row_sourceAccountSequence b
     \<and> row_feeMax a = row_feeMax b
     \<and> row_feeCharged a = row_feeCharged b
     \<and> row_operationCount a = row_operationCount b
     \<and> row_envelopeBlob a = row_envelopeBlob b
     \<and> row_resultBlob a = row_resultBlob b
     \<and> row_metaBlob a = row_metaBlob b
     \<and> row_feeChangesBlob a = row_feeChangesBlob b
     \<and> row_signatures a = row_signatures b
     \<and> row_validAfter a = row_validAfter b
     \<and> row_validBefore a = row_validBefore b
     \<and> row_memoType a = row_memoType b
     \<and> row_memoValue a = row_memoValue b
     \<and> row_successful a = row_successful b"

fun rows_match :: "TransactionRow list \<Rightarrow> TransactionRow list \<Rightarrow> bool" where
  "rows_match [] [] = True"
| "rows_match (a # as) (b # bs) = (row_equal a b \<and> rows_match as bs)"
| "rows_match _ _ = False"

definition CheckExpTransactions :: "Store \<Rightarrow> int \<Rightarrow> bool \<times> Store" where
  "CheckExpTransactions store seq =
     (let transactions = ledger_rows (history_transactions store) seq;
          expTransactions = ledger_rows (exp_history_transactions store) seq
      in if length transactions \<noteq> length expTransactions then (False, store)
         else (rows_match transactions expTransactions, store))"

section \<open>Sample inputs\<close>

text \<open>
  A transaction shaped like the second one of \<open>TestCheckExpTransactions\<close> (index 2, fee
  300, a text memo, three operations, a successful result charged 300), and collaborators
  that answer: the codec serializes the payloads, except that it refuses an envelope whose
  memo type is none of the five known ones, and it decodes the two result payloads below,
  one successful and one failed.
\<close>

text \<open>
  The encoders the sample collaborators use: hexadecimal, base 64 with the standard
  alphabet and padding, and decimal notation.
\<close>

definition hex_digit :: "nat \<Rightarrow> char" where
  "hex_digit d = ''0123456789abcdef'' ! d"

definition hex_encode :: "string \<Rightarrow> string" where
  "hex_encode bs = concat (map (\<lambda>c. [hex_digit (of_char c div 16), hex_digit (of_char c mod 16)]) bs)"

definition base64_digit :: "nat \<Rightarrow> char" where
  "base64_digit d =
     ''ABCDEFGHIJKLMNOPQRSTUVWXYZabcdefghijklmnopqrstuvwxyz0123456789+/'' ! d"

fun base64_encode :: "string \<Rightarrow> string" where
  "base64_encode (a # b # c # rest) =
     (let n = of_char a * 65536 + of_char b * 256 + of_char c in
      [base64_digit (n div 262144), base64_digit (n div 4096 mod 64),
       base64_digit (n div 64 mod 64), base64_digit (n mod 64)] @ base64_encode rest)"
| "base64_encode [a, b] =
     (let n = of_char a * 65536 + of_char b * 256 in
      [base64_digit (n div 262144), base64_digit (n div 4096 mod 64),
       base64_digit (n div 64 mod 64), CHR ''=''])"
| "base64_encode [a] =
     (let n = of_char a * 65536 in
      [base64_digit (n div 262144), base64_digit (n div 4096 mod 64), CHR ''='', CHR ''=''])"
| "base64_encode [] = []"

function decimal_digits :: "nat \<Rightarrow> string" where
  "decimal_digits n =
     (if n < 10 then [hex_digit n]
      else decimal_digits (n div 10) @ [hex_digit (n mod 10)])"
  by pat_completeness auto
termination
  by (relation "measure id") auto

declare decimal_digits.simps [simp del]

definition decimal :: "int \<Rightarrow> string" where
  "decimal n = (if n < 0 then CHR ''-'' # decimal_digits (nat (- n)) else decimal_digits (nat n))"

definition sample_memo :: xdr_Memo where
  "sample_memo =
     \<lparr>Type = MemoTypeMemoText, Text = Some ''hello world'', Id' = None, Hash = None,
      RetHash = None\<rparr>"

definition sample_transaction :: LedgerTransaction where
  "sample_transaction =
     \<lparr>Index = 2,
      Envelope =
        \<lparr>Tx = \<lparr>SourceAccount = AccountId ''source'', Fee = 300, SeqNum = 1,
                TimeBounds = None, Memo = sample_memo,
                Operations = [Operation ''op1'', Operation ''op2'', Operation ''op3'']\<rparr>,
         Signatures = [\<lparr>Hint = ''hint'', Signature = ''signed''\<rparr>]\<rparr>,
      Result =
        \<lparr>TransactionResultPair_TransactionHash =
           [CHR 0x33, CHR 0x89, CHR 0xE9, CHR 0xF0, CHR 0xF1, CHR 0xA6, CHR 0x5F, CHR 0x19,
            CHR 0x73, CHR 0x6C, CHR 0xAC, CHR 0xF5, CHR 0x44, CHR 0xC2, CHR 0xE8, CHR 0x25,
            CHR 0x31, CHR 0x3E, CHR 0x84, CHR 0x47, CHR 0xF5, CHR 0x69, CHR 0x23, CHR 0x3B,
            CHR 0xB8, CHR 0xDB, CHR 0x39, CHR 0xAA, CHR 0x60, CHR 0x7C, CHR 0x88, CHR 0x89],
         TransactionResultPair_Result =
           \<lparr>FeeCharged = 300,
            TransactionResult_Result = \<lparr>Code = TransactionResultCodeTxSuccess\<rparr>\<rparr>\<rparr>,
      Meta = TransactionMeta ''meta'',
      FeeChanges = LedgerEntryChanges ''fee changes''\<rparr>"

definition with_memo :: "xdr_Memo \<Rightarrow> LedgerTransaction \<Rightarrow> LedgerTransaction" where
  "with_memo m transaction =
     transaction\<lparr>Envelope := (Envelope transaction)
       \<lparr>Tx := (Tx (Envelope transaction))\<lparr>Memo := m\<rparr>\<rparr>\<rparr>"

definition with_time_bounds ::
  "xdr_TimeBounds option \<Rightarrow> LedgerTransaction \<Rightarrow> LedgerTransaction" where
  "with_time_bounds tb transaction =
     transaction\<lparr>Envelope := (Envelope transaction)
       \<lparr>Tx := (Tx (Envelope transaction))\<lparr>TimeBounds := tb\<rparr>\<rparr>\<rparr>"

definition success_payload :: string where
  "success_payload = ''AAAAAAAAAGQAAAAAAAAAAQAAAAAAAAABAAAAAAAAAAA=''"

definition failed_payload :: string where
  "failed_payload = ''AAAAAAAAAGT/////AAAAAQAAAAAAAAAB/////gAAAAA=''"

definition sample_rows :: "Transaction list" where
  "sample_rows =
     [\<lparr>ID = pack 123 1 0, TransactionHash = ''ea1e'', TxResult = success_payload,
       Successful = Some True\<rparr>,
      \<lparr>ID = pack 123 2 0, TransactionHash = ''3389'', TxResult = success_payload,
       Successful = None\<rparr>]"

definition sample_externals :: externals where
  "sample_externals =
     \<lparr>MarshalBase64_Envelope =
        (\<lambda>v. if known_memo_type (Type (Memo (Tx v))) then Inr ''envelope''
             else Inl (External ''xdr: encoding failed'')),
      MarshalBase64_Result = (\<lambda>v. Inr ''result''),
      MarshalBase64_Meta = (\<lambda>v. Inr ''meta''),
      MarshalBase64_FeeChanges = (\<lambda>v. Inr ''fee_meta''),
      SafeUnmarshalBase64_Result =
        (\<lambda>s. if s = success_payload
               then Inr \<lparr>FeeCharged = 100,
                         TransactionResult_Result = \<lparr>Code = TransactionResultCodeTxSuccess\<rparr>\<rparr>
             else if s = failed_payload
               then Inr \<lparr>FeeCharged = 100, TransactionResult_Result = \<lparr>Code = - 1\<rparr>\<rparr>
             else Inl (External ''xdr: decoding failed'')),
      Address = (\<lambda>a. case a of AccountId s \<Rightarrow> s),
      base64_EncodeToString = base64_encode,
      hex_EncodeToString = hex_encode,
      FormatInt10 = decimal,
      utf8_Scrub = Scrub,
      AccountByAddress =
        (\<lambda>a. if a = ''source'' then Inr \<lparr>Account_ID = 7\<rparr>
             else Inl (External ''sql: no rows in result set'')),
      LedgerBySequence =
        (\<lambda>seq. if seq = 123 then None else Some (External ''sql: no rows in result set'')),
      parent_Select = (\<lambda>b. Inr sample_rows)\<rparr>"

definition sample_clock :: Clock where
  "sample_clock n = 1575000000000000000 + 250 * int n"

section \<open>Reading outcomes\<close>

text \<open>The column a normalized row holds under a name; nothing when no row was produced.\<close>

fun column :: "(string \<rightharpoonup> any_value) outcome \<Rightarrow> string \<Rightarrow> any_value option" where
  "column (Returned m) name = m name"
| "column (Failed e) name = None"
| "column (Panicked p) name = None"

text \<open>All four payloads of a transaction serialize.\<close>

definition serializes :: "externals \<Rightarrow> LedgerTransaction \<Rightarrow> bool" where
  "serializes ext transaction \<longleftrightarrow>
     \<not> isl (MarshalBase64_Envelope ext (Envelope transaction))
     \<and> \<not> isl (MarshalBase64_Result ext (TransactionResultPair_Result (Result transaction)))
     \<and> \<not> isl (MarshalBase64_Meta ext (Meta transaction))
     \<and> \<not> isl (MarshalBase64_FeeChanges ext (FeeChanges transaction))"

fun panicked :: "'a outcome \<Rightarrow> bool" where
  "panicked (Panicked p) = True"
| "panicked (Returned x) = False"
| "panicked (Failed e) = False"

section \<open>Statements about reading\<close>

text \<open>The query \<open>Select\<close> sends to the database when no error was recorded before.\<close>

definition Select_sql :: "TransactionsQ \<Rightarrow> SelectBuilder" where
  "Select_sql q =
     (if \<not> includeFailed q then sq_Where (sql q) successPredicate [] else sql q)"

text \<open>
  The three failure conditions of section 4.4 of the specification for a fetched row whose
  result payload decodes to \<open>resultXDR\<close>, read on the stored success flag: the flag is
  false when the column holds false, and it counts as true when the column holds true or
  is unset.
\<close>

definition corruption_case :: "bool \<Rightarrow> Transaction \<Rightarrow> xdr_TransactionResult \<Rightarrow> bool" where
  "corruption_case incl t resultXDR \<longleftrightarrow>
     (\<not> incl \<and> (Code (TransactionResult_Result resultXDR) \<noteq> TransactionResultCodeTxSuccess
                  \<or> Successful t = Some False))
     \<or> ((Successful t = Some True \<or> Successful t = None)
         \<and> Code (TransactionResult_Result resultXDR) \<noteq> TransactionResultCodeTxSuccess)
     \<or> (Successful t = Some False
         \<and> Code (TransactionResult_Result resultXDR) = TransactionResultCodeTxSuccess)"

text \<open>
  A row stored before the success flag existed, holding a failed result, and collaborators
  whose database answers with that row.
\<close>

definition legacy_failed_row :: Transaction where
  "legacy_failed_row =
     \<lparr>ID = pack 123 3 0, TransactionHash = ''aa16'', TxResult = failed_payload,
      Successful = None\<rparr>"

definition legacy_externals :: externals where
  "legacy_externals = sample_externals\<lparr>parent_Select := (\<lambda>b. Inr [legacy_failed_row])\<rparr>"

text \<open>
  Collaborators whose database answers every query with the given rows, and rows in the
  states the tests of the package set up: flagged successful with a failed result
  (\<open>TestExtraChecksTransactionSuccessfulTrueResultFalse\<close>), flagged failed with a
  successful result (\<open>TestExtraChecksTransactionSuccessfulFalseResultTrue\<close>), a failed
  transaction flagged as such, a row whose flag is unset with a failed result, and a row
  whose payload does not decode.
\<close>

definition answering :: "Transaction list \<Rightarrow> externals" where
  "answering rows = sample_externals\<lparr>parent_Select := (\<lambda>b. Inr rows)\<rparr>"

definition corrupted_row :: Transaction where
  "corrupted_row =
     \<lparr>ID = pack 123 4 0, TransactionHash = ''aa168f12'', TxResult = failed_payload,
      Successful = Some True\<rparr>"

definition wrongly_failed_row :: Transaction where
  "wrongly_failed_row =
     \<lparr>ID = pack 123 5 0, TransactionHash = ''a2dabf4e'', TxResult = success_payload,
      Successful = Some False\<rparr>"

definition failed_row :: Transaction where
  "failed_row =
     \<lparr>ID = pack 123 6 0, TransactionHash = ''56e3216045'', TxResult = failed_payload,
      Successful = Some False\<rparr>"

definition unset_failed_row :: Transaction where
  "unset_failed_row =
     \<lparr>ID = pack 123 7 0, TransactionHash = ''c91d5a'', TxResult = failed_payload,
      Successful = None\<rparr>"

definition undecodable_row :: Transaction where
  "undecodable_row =
     \<lparr>ID = pack 123 8 0, TransactionHash = ''0b7e'', TxResult = ''result'',
      Successful = Some True\<rparr>"

text \<open>Collaborators whose codec serializes an envelope without looking at its memo type.\<close>

definition lenient_externals :: externals where
  "lenient_externals = sample_externals\<lparr>MarshalBase64_Envelope := (\<lambda>v. Inr ''envelope'')\<rparr>"

fun failed :: "'a outcome \<Rightarrow> bool" where
  "failed (Failed e) = True"
| "failed (Returned x) = False"
| "failed (Panicked p) = False"

section \<open>Statements about the consistency check\<close>

text \<open>A row with its two timestamps blanked: what the check compares.\<close>

definition columns :: "TransactionRow \<Rightarrow> TransactionRow" where
  "columns r = r\<lparr>row_createdAt := 0, row_updatedAt := 0\<rparr>"

text \<open>
  The two transactions of \<open>TestCheckExpTransactions\<close> as rows of ledger 123, with the
  values their envelopes and results decode to, and a store that holds them in both tables,
  written at different times.
\<close>

definition stored_row :: TransactionRow where
  "stored_row =
     \<lparr>row_id = pack 123 1 0,
      row_hash = ''ea1e96dd4aa8a16e357842b0fcdb66c1ab03fade7dcd3a99f88ed28ea8c30f6a'',
      row_ledgerSequence = 123, row_applicationOrder = 1,
      row_sourceAccount = ''GAUJETIZVEP2NRYLUESJ3LS66NVCEGMON4UDCBCSBEVPIID773P2W6AY'',
      row_sourceAccountSequence = ''78621794419880134'',
      row_feeMax = 100, row_feeCharged = Some 100, row_operationCount = 1,
      row_envelopeBlob =
        ''AAAAACiSTRmpH6bHC6Ekna5e82oiGY5vKDEEUgkq9CB//t+rAAAAZAEXUhsAADDGAAAAAQAAAAAAAAAA'' @
        ''AAAAAF3v3WAAAAABAAAACjEwOTUzMDMyNTAAAAAAAAEAAAAAAAAAAQAAAAAOr5CG1ax6qG2fBEgXJlF0'' @
        ''sw5W0irOS6N/NRDbavBm4QAAAAAAAAAAE32fwAAAAAAAAAABf/7fqwAAAEAkWgyAgV5tF3m1y1TIDYkN'' @
        ''XP8pZLAwcxhWEi4f3jcZJK7QrKSXhKoawVGrp5NNs4y9dgKt8zHZ8KbJreFBUsIB'',
      row_resultBlob = ''AAAAAAAAAGQAAAAAAAAAAQAAAAAAAAABAAAAAAAAAAA='',
      row_metaBlob =
        ''AAAAAAAAAAMAAAACAAAAAAAAAAMAAAAAAAAAABbxCy3mLg3hiTqX4VUEEp60pFOrJNxYM1JtxXTwXhY2'' @
        ''AAAAAAvrwgAAAAADAAAAAAAAAAAAAAAAAAAAAAAAAAABAAAAAAAAAAAAAAAAAAAAAAAAAQAAAAMAAAAA'' @
        ''AAAAAAGUcmKO5465JxTSLQOQljwk2SfqAJmZSG6JH6wtqpwhDeC2s5t4PNQAAAAAAAAAAQAAAAAAAAAA'' @
        ''AAAAAAAAAAABAAAAAAAAAAAAAAAAAAAAAAAAAwAAAAEAAAADAAAAAAAAAAABlHJijueOuScU0i0DkJY8'' @
        ''JNkn6gCZmUhuiR+sLaqcIQAAAAAL68IAAAAAAAAAAAEAAAAAAAAAAAAAAAAAAAAAAQAAAAAAAAAAAAAA'' @
        ''AAAAAAAAAAMAAAADAAAAAAAAAAAW8Qst5i4N4Yk6l+FVBBKetKRTqyTcWDNSbcV08F4WNgAAAAAL68IA'' @
        ''AAAAAwAAAAAAAAAAAAAAAAAAAAAAAAAAAQAAAAAAAAAAAAAAAAAAAAAAAAEAAAADAAAAAAAAAAAW8Qst'' @
        ''5i4N4Yk6l+FVBBKetKRTqyTcWDNSbcV08F4WNg3gtrObeDzUAAAAAwAAAAAAAAAAAAAAAAAAAAAAAAAA'' @
        ''AQAAAAAAAAAAAAAAAAAAAAAAAAEAAAABAAAAAwAAAAAAAAAAAZRyYo7njrknFNItA5CWPCTZJ+oAmZlI'' @
        ''bokfrC2qnCEAAAAAC+vCAAAAAAAAAAABAAAAAAAAAAAAAAAAAAAAAAAAAAAAAAAAAAAAAAAAAAA='',
      row_feeChangesBlob = ''AAAAAA=='',
      row_signatures =
        [''JFoMgIFebRd5tctUyA2JDVz/KWSwMHMYVhIuH943GSSu0Kykl4SqGsFRq6eTTbOMvXYCrfMx2fCmya3hQVLCAQ==''],
      row_validAfter = Some 0, row_validBefore = Some 1576000864,
      row_memoType = ''text'', row_memoValue = Some ''1095303250'',
      row_successful = Some True,
      row_createdAt = 1575000000000000000, row_updatedAt = 1575000000000000250\<rparr>"

definition other_stored_row :: TransactionRow where
  "other_stored_row =
     \<lparr>row_id = pack 123 2 0,
      row_hash = ''3389e9f0f1a65f19736cacf544c2e825313e8447f569233bb8db39aa607c8889'',
      row_ledgerSequence = 123, row_applicationOrder = 2,
      row_sourceAccount = ''GAAZI4TCR3TY5OJHCTJC2A4QSY6CJWJH5IAJTGKIN2ER7LBNVKOCCWN7'',
      row_sourceAccountSequence = ''1'',
      row_feeMax = 300, row_feeCharged = Some 300, row_operationCount = 3,
      row_envelopeBlob =
        ''AAAAAAGUcmKO5465JxTSLQOQljwk2SfqAJmZSG6JH6wtqpwhAAABLAAAAAAAAAABAAAAAAAAAAEAAAAL'' @
        ''aGVsbG8gd29ybGQAAAAAAwAAAAAAAAAAAAAAABbxCy3mLg3hiTqX4VUEEp60pFOrJNxYM1JtxXTwXhY2'' @
        ''AAAAAAvrwgAAAAAAAAAAAQAAAAAW8Qst5i4N4Yk6l+FVBBKetKRTqyTcWDNSbcV08F4WNgAAAAAN4Laz'' @
        ''j4x61AAAAAAAAAAFAAAAAAAAAAAAAAAAAAAAAQAAAAAAAAAAAAAAAAAAAAAAAAAAAAAAAAAAAAAAAAAB'' @
        ''LaqcIQAAAEBKwqWy3TaOxoGnfm9eUjfTRBvPf34dvDA0Nf+B8z4zBob90UXtuCqmQqwMCyH+okOI3c05'' @
        ''br3khkH0yP4kCwcE'',
      row_resultBlob = ''AAAAAAAAASwAAAAAAAAAAwAAAAAAAAAAAAAAAAAAAAAAAAABAAAAAAAAAAAAAAAFAAAAAAAAAAA='',
      row_metaBlob =
        ''AAAAAAAAAAMAAAACAAAAAAAAHqEAAAAAAAAAAB+lHtRjj4+h2/0Tj8iBQiaUDzLo4oRCLyUnytFHzAyI'' @
        ''AAAAAAvrwgAAAB6hAAAAAAAAAAAAAAAAAAAAAAAAAAABAAAAAAAAAAAAAAAAAAAAAAAAAQAAHqEAAAAA'' @
        ''AAAAABbxCy3mLg3hiTqX4VUEEp60pFOrJNxYM1JtxXTwXhY2DeC2s4+MeHwAAAADAAAAAgAAAAAAAAAA'' @
        ''AAAAAAAAAAABAAAAAAAAAAAAAAAAAAAAAAAAAgAAAAAAAB6hAAAAAAAAAACzMOD+8iU8qo+qbTYewT8l'' @
        ''xKE/s1cE3FOCVWxsqJ74GwAAAAAL68IAAAAeoQAAAAAAAAAAAAAAAAAAAAAAAAAAAQAAAAAAAAAAAAAA'' @
        ''AAAAAAAAAAEAAB6hAAAAAAAAAAAW8Qst5i4N4Yk6l+FVBBKetKRTqyTcWDNSbcV08F4WNg3gtrODoLZ8'' @
        ''AAAAAwAAAAIAAAAAAAAAAAAAAAAAAAAAAQAAAAAAAAAAAAAAAAAAAAAAAAIAAAAAAAAeoQAAAAAAAAAA'' @
        ''SZcLtOTqf+cdbsq8HmLMkeqU06LN94UTWXuSBem5Z88AAAAAC+vCAAAAHqEAAAAAAAAAAAAAAAAAAAAA'' @
        ''AAAAAAEAAAAAAAAAAAAAAAAAAAAAAAABAAAeoQAAAAAAAAAAFvELLeYuDeGJOpfhVQQSnrSkU6sk3Fgz'' @
        ''Um3FdPBeFjYN4Lazd7T0fAAAAAMAAAACAAAAAAAAAAAAAAAAAAAAAAEAAAAAAAAAAAAAAAAAAAA='',
      row_feeChangesBlob = ''AAAAAA=='',
      row_signatures =
        [''SsKlst02jsaBp35vXlI300Qbz39+HbwwNDX/gfM+MwaG/dFF7bgqpkKsDAsh/qJDiN3NOW695IZB9Mj+JAsHBA==''],
      row_validAfter = None, row_validBefore = None,
      row_memoType = ''text'', row_memoValue = Some ''hello world'',
      row_successful = Some True,
      row_createdAt = 1575000000000000500, row_updatedAt = 1575000000000000750\<rparr>"

definition written_later :: "TransactionRow \<Rightarrow> TransactionRow" where
  "written_later r =
     r\<lparr>row_createdAt := row_createdAt r + 1000000, row_updatedAt := row_updatedAt r + 1000000\<rparr>"

definition sample_store :: Store where
  "sample_store =
     \<lparr>history_transactions = [written_later stored_row, written_later other_stored_row],
      exp_history_transactions = [stored_row, other_stored_row]\<rparr>"

section \<open>Basic facts\<close>

lemmas MemoType_defs =
  MemoTypeMemoNone_def MemoTypeMemoText_def MemoTypeMemoId_def
  MemoTypeMemoHash_def MemoTypeMemoReturn_def

lemma Returned_bind:
  "bind_outcome x f = Returned y \<longleftrightarrow> (\<exists>v. x = Returned v \<and> f v = Returned y)"
  by (cases x) auto

text \<open>The row the normalizer produces for the sample transaction in ledger 123.\<close>

lemma sample_row:
  "transactionToMap sample_externals sample_clock sample_transaction 123 =
     Returned (map_of
       [(''id'', Int64 (pack 123 2 0)),
        (''transaction_hash'',
           String ''3389e9f0f1a65f19736cacf544c2e825313e8447f569233bb8db39aa607c8889''),
        (''ledger_sequence'', Uint32 123),
        (''application_order'', Int32 2),
        (''account'', String ''source''),
        (''account_sequence'', String ''1''),
        (''max_fee'', Int32 300),
        (''fee_charged'', Int32 300),
        (''operation_count'', Int32 3),
        (''tx_envelope'', String ''envelope''),
        (''tx_result'', String ''result''),
        (''tx_meta'', String ''meta''),
        (''tx_fee_meta'', String ''fee_meta''),
        (''signatures'', StringArray [''c2lnbmVk'']),
        (''time_bounds'', NilValue),
        (''memo_type'', String ''text''),
        (''memo'', NullString ''hello world'' True),
        (''created_at'', TimeValue 1575000000000000000),
        (''updated_at'', TimeValue 1575000000000000250),
        (''successful'', Bool True)])"
  by (simp add: transactionToMap_def sample_externals_def sample_transaction_def sample_memo_def
      sample_clock_def time_Now_def ToInt64_def toid_New_def int32_def pack_def TransactionMask_def
      OperationMask_def memoType_def memo_def MemoType_defs MustText_def signatures_def
      formatTimeBounds_def NUL_def rune_width.simps byte_def Let_def hex_encode_def
      hex_digit_def base64_digit_def decimal_def decimal_digits.simps known_memo_type_def)

section \<open>The success flag of a normalized row\<close>

text \<open>
  Claim C1. Whenever \<open>transactionToMap\<close> accepts a ledger transaction and returns a row,
  the \<open>successful\<close> entry of the row is the boolean "the code of the decoded execution
  result equals the success code": it is true exactly when the code is the success code.
  The entry depends on nothing but the decoded result, whatever the collaborators, the
  clock and the ledger sequence are.
\<close>

theorem transactionToMap_successful:
  assumes "transactionToMap ext clock transaction sequence = Returned m"
  shows "m ''successful'' =
           Some (Bool (Code (TransactionResult_Result
             (TransactionResultPair_Result (Result transaction)))
               = TransactionResultCodeTxSuccess))
         \<and> (m ''successful'' = Some (Bool True) \<longleftrightarrow>
              Code (TransactionResult_Result
                (TransactionResultPair_Result (Result transaction)))
                  = TransactionResultCodeTxSuccess)"
  using assms
  by (auto simp: transactionToMap_def Returned_bind time_Now_def)

theorem transactionToMap_successful_witness:
  "column (transactionToMap sample_externals sample_clock sample_transaction 123) ''successful''
     = Some (Bool True)"
  using transactionToMap_successful [OF sample_row]
  by (simp add: sample_row)

section \<open>The timestamps of a normalized row\<close>

text \<open>
  Claim C8, as stated: \<open>created_at\<close> and \<open>updated_at\<close> of a produced row hold identical
  values. The normalizer reads the clock once for each of them, so the two differ as soon
  as the clock has moved between the two readings: for the sample transaction, with a clock
  that advances by 250 nanoseconds per reading, the row holds two different instants.
\<close>

theorem timestamps_differ:
  "column (transactionToMap sample_externals sample_clock sample_transaction 123) ''created_at''
     = Some (TimeValue 1575000000000000000)
   \<and> column (transactionToMap sample_externals sample_clock sample_transaction 123) ''updated_at''
     = Some (TimeValue 1575000000000000250)"
  by (simp add: sample_row)

text \<open>
  Claim C8, amended. In every row the normalizer produces, \<open>created_at\<close> is the first
  reading of the wall clock taken while the row is built and \<open>updated_at\<close> is the reading
  taken right after it; the two entries are identical exactly when the two readings are.
\<close>

theorem transactionToMap_timestamps:
  assumes "transactionToMap ext clock transaction sequence = Returned m"
  shows "m ''created_at'' = Some (TimeValue (clock 0))
         \<and> m ''updated_at'' = Some (TimeValue (clock 1))
         \<and> (m ''created_at'' = m ''updated_at'' \<longleftrightarrow> clock 0 = clock 1)"
  using assms
  by (auto simp: transactionToMap_def Returned_bind time_Now_def)

theorem transactionToMap_timestamps_witness:
  "column (transactionToMap sample_externals sample_clock sample_transaction 123) ''created_at''
     = Some (TimeValue (sample_clock 0))
   \<and> column (transactionToMap sample_externals sample_clock sample_transaction 123) ''updated_at''
     = Some (TimeValue (sample_clock 1))
   \<and> sample_clock 0 \<noteq> sample_clock 1"
  using transactionToMap_timestamps [OF sample_row]
  by (simp add: sample_row sample_clock_def)

section \<open>Time bounds\<close>

text \<open>
  Claim C6. \<open>formatTimeBounds\<close> stores nothing (the SQL null, so both ends of the
  interval are null) when the envelope has no time-bounds block; when the declared max time
  is the sentinel 0, it stores a range whose upper bound is null and whose lower bound is
  the declared min time; when the declared max time exceeds the largest signed 64-bit
  value, the upper bound is that largest value, and the call neither overflows nor fails.
  A max time between 1 and that largest value is stored as it is.
\<close>

theorem formatTimeBounds_cases:
  "(TimeBounds (Tx (Envelope transaction)) = None \<longrightarrow>
      formatTimeBounds transaction = NilValue)
   \<and> (\<forall>tb. TimeBounds (Tx (Envelope transaction)) = Some tb \<and> MaxTime tb = 0 \<longrightarrow>
          formatTimeBounds transaction = Expr ''int8range(?,?)'' [Uint64 (MinTime tb), NilValue])
   \<and> (\<forall>tb. TimeBounds (Tx (Envelope transaction)) = Some tb \<and> MaxTime tb > MaxInt64 \<longrightarrow>
          formatTimeBounds transaction =
            Expr ''int8range(?,?)'' [Uint64 (MinTime tb), Uint64 MaxInt64])
   \<and> (\<forall>tb. TimeBounds (Tx (Envelope transaction)) = Some tb \<and> 0 < MaxTime tb
            \<and> MaxTime tb \<le> MaxInt64 \<longrightarrow>
          formatTimeBounds transaction =
            Expr ''int8range(?,?)'' [Uint64 (MinTime tb), Uint64 (MaxTime tb)])"
  by (auto simp: formatTimeBounds_def Let_def MaxInt64_def)

theorem formatTimeBounds_cases_witness:
  "formatTimeBounds (with_time_bounds None sample_transaction) = NilValue
   \<and> formatTimeBounds
         (with_time_bounds (Some \<lparr>MinTime = 1575000000, MaxTime = 0\<rparr>) sample_transaction)
       = Expr ''int8range(?,?)'' [Uint64 1575000000, NilValue]
   \<and> formatTimeBounds
         (with_time_bounds (Some \<lparr>MinTime = 5, MaxTime = 2 ^ 64 - 1\<rparr>) sample_transaction)
       = Expr ''int8range(?,?)'' [Uint64 5, Uint64 9223372036854775807]
   \<and> formatTimeBounds
         (with_time_bounds (Some \<lparr>MinTime = 5, MaxTime = 10\<rparr>) sample_transaction)
       = Expr ''int8range(?,?)'' [Uint64 5, Uint64 10]"
  using formatTimeBounds_cases [of "with_time_bounds None sample_transaction"]
    formatTimeBounds_cases
      [of "with_time_bounds (Some \<lparr>MinTime = 1575000000, MaxTime = 0\<rparr>) sample_transaction"]
    formatTimeBounds_cases
      [of "with_time_bounds (Some \<lparr>MinTime = 5, MaxTime = 2 ^ 64 - 1\<rparr>) sample_transaction"]
    formatTimeBounds_cases
      [of "with_time_bounds (Some \<lparr>MinTime = 5, MaxTime = 10\<rparr>) sample_transaction"]
  by (simp add: with_time_bounds_def MaxInt64_def)

section \<open>The memo\<close>






lemma memoType_unknown:
  "\<not> known_memo_type (Type (Memo (Tx (Envelope transaction)))) \<Longrightarrow>
     memoType transaction = Panicked (InvalidMemoType (Type (Memo (Tx (Envelope transaction)))))"
  by (simp add: memoType_def known_memo_type_def Let_def)

lemma memo_unknown:
  "\<not> known_memo_type (Type (Memo (Tx (Envelope transaction)))) \<Longrightarrow>
     memo ext transaction = Panicked (InvalidMemoType (Type (Memo (Tx (Envelope transaction)))))"
  by (simp add: memo_def known_memo_type_def Let_def)

lemma memoType_known:
  "known_memo_type (Type (Memo (Tx (Envelope transaction)))) \<Longrightarrow>
     memoType transaction \<in> Returned ` {''none'', ''text'', ''id'', ''hash'', ''return''}"
  by (auto simp: memoType_def known_memo_type_def Let_def)

lemma memo_known:
  "known_memo_type (Type (Memo (Tx (Envelope transaction)))) \<Longrightarrow>
     memo ext transaction \<noteq> Panicked (InvalidMemoType u)"
  by (auto simp: memo_def known_memo_type_def Let_def MustText_def MustId_def MustHash_def
      MustRetHash_def MemoType_defs split: option.splits)

text \<open>
  With an unknown memo type the normalizer never returns a row; once the four payloads are
  serialized (a failure there is returned first, as an error), it panics.
\<close>

lemma transactionToMap_unknown:
  assumes "\<not> known_memo_type (Type (Memo (Tx (Envelope transaction))))"
  shows "transactionToMap ext clock transaction sequence \<noteq> Returned m"
    and "serializes ext transaction \<Longrightarrow>
           panicked (transactionToMap ext clock transaction sequence)"
proof -
  show "transactionToMap ext clock transaction sequence \<noteq> Returned m"
    using memoType_unknown [OF assms]
    by (auto simp: transactionToMap_def Returned_bind)
  assume "serializes ext transaction"
  then obtain a b c d where
    "MarshalBase64_Envelope ext (Envelope transaction) = Inr a"
    "MarshalBase64_Result ext (TransactionResultPair_Result (Result transaction)) = Inr b"
    "MarshalBase64_Meta ext (Meta transaction) = Inr c"
    "MarshalBase64_FeeChanges ext (FeeChanges transaction) = Inr d"
    unfolding serializes_def by (metis sum.collapse(2))
  then show "panicked (transactionToMap ext clock transaction sequence)"
    using memoType_unknown [OF assms]
    by (cases "ToInt64 (toid_New (int32 sequence) (int32 (Index transaction)) 0)")
       (auto simp: transactionToMap_def ToInt64_def split: if_splits)
qed

text \<open>A payload that does not serialize is reported as an error, whatever the memo is.\<close>

lemma transactionToMap_unserialized:
  assumes "\<not> serializes ext transaction"
  shows "failed (transactionToMap ext clock transaction sequence)"
proof (cases "MarshalBase64_Envelope ext (Envelope transaction)")
  case Inl
  then show ?thesis by (simp add: transactionToMap_def)
next
  case a: Inr
  show ?thesis
  proof (cases "MarshalBase64_Result ext (TransactionResultPair_Result (Result transaction))")
    case Inl
    with a show ?thesis by (simp add: transactionToMap_def)
  next
    case b: Inr
    show ?thesis
    proof (cases "MarshalBase64_Meta ext (Meta transaction)")
      case Inl
      with a b show ?thesis by (simp add: transactionToMap_def)
    next
      case c: Inr
      show ?thesis
      proof (cases "MarshalBase64_FeeChanges ext (FeeChanges transaction)")
        case Inl
        with a b c show ?thesis by (simp add: transactionToMap_def)
      next
        case Inr
        with a b c assms show ?thesis by (simp add: serializes_def)
      qed
    qed
  qed
qed

text \<open>
  Claim C5, as stated: for every transaction whose memo type is none of the five known
  ones, normalization panics rather than returning a normal error. The normalizer
  serializes the envelope before it looks at the memo, and returns the codec's error when
  that fails: with a codec that refuses an envelope of unknown memo type, the sample
  transaction with memo type 7 makes \<open>transactionToMap\<close> return an error, not panic.
\<close>

theorem unknown_memo_type_refused:
  "transactionToMap sample_externals sample_clock
       (with_memo \<lparr>Type = 7, Text = None, Id' = None, Hash = None, RetHash = None\<rparr>
          sample_transaction) 123
     = Failed (External ''xdr: encoding failed'')
   \<and> \<not> known_memo_type 7"
proof -
  have "MarshalBase64_Envelope sample_externals
          (Envelope (with_memo \<lparr>Type = 7, Text = None, Id' = None, Hash = None, RetHash = None\<rparr>
             sample_transaction))
        = Inl (External ''xdr: encoding failed'')"
    by (simp add: sample_externals_def with_memo_def known_memo_type_def MemoType_defs)
  then have "transactionToMap sample_externals sample_clock
       (with_memo \<lparr>Type = 7, Text = None, Id' = None, Hash = None, RetHash = None\<rparr>
          sample_transaction) 123
     = Failed (External ''xdr: encoding failed'')"
    unfolding transactionToMap_def by (simp only: of_result.simps bind_outcome.simps)
  moreover have "\<not> known_memo_type 7"
    by (simp add: known_memo_type_def MemoType_defs)
  ultimately show ?thesis by simp
qed

text \<open>
  Claim C5, amended. For a transaction whose memo type is none of none, text, id, hash and
  return, \<open>memoType\<close> and \<open>memo\<close> panic with the invalid memo type, returning neither an
  error nor a value, and the normalizer writes no row: when one of its four payloads does
  not serialize it returns that error, before the memo is looked at, and when all four
  serialize it panics. For the five known types \<open>memoType\<close> returns the name of the type
  and \<open>memo\<close> never panics on the type dispatch.
\<close>

theorem memo_type_dispatch:
  "(\<not> known_memo_type (Type (Memo (Tx (Envelope transaction)))) \<longrightarrow>
      memoType transaction
        = Panicked (InvalidMemoType (Type (Memo (Tx (Envelope transaction)))))
      \<and> memo ext transaction
        = Panicked (InvalidMemoType (Type (Memo (Tx (Envelope transaction)))))
      \<and> (\<forall>m. transactionToMap ext clock transaction sequence \<noteq> Returned m)
      \<and> (serializes ext transaction \<longrightarrow>
           panicked (transactionToMap ext clock transaction sequence))
      \<and> (\<not> serializes ext transaction \<longrightarrow>
           failed (transactionToMap ext clock transaction sequence)))
   \<and> (known_memo_type (Type (Memo (Tx (Envelope transaction)))) \<longrightarrow>
        memoType transaction \<in> Returned ` {''none'', ''text'', ''id'', ''hash'', ''return''}
        \<and> (\<forall>u. memo ext transaction \<noteq> Panicked (InvalidMemoType u)))"
proof (intro conjI impI allI)
  assume u: "\<not> known_memo_type (Type (Memo (Tx (Envelope transaction))))"
  show "memoType transaction
        = Panicked (InvalidMemoType (Type (Memo (Tx (Envelope transaction)))))"
    using u by (rule memoType_unknown)
  show "memo ext transaction
        = Panicked (InvalidMemoType (Type (Memo (Tx (Envelope transaction)))))"
    using u by (rule memo_unknown)
  show "transactionToMap ext clock transaction sequence \<noteq> Returned m" for m
    using u by (rule transactionToMap_unknown(1))
  show "panicked (transactionToMap ext clock transaction sequence)"
    if "serializes ext transaction"
    using u that by (rule transactionToMap_unknown(2))
  show "failed (transactionToMap ext clock transaction sequence)"
    if "\<not> serializes ext transaction"
    using that by (rule transactionToMap_unserialized)
next
  assume k: "known_memo_type (Type (Memo (Tx (Envelope transaction))))"
  show "memoType transaction \<in> Returned ` {''none'', ''text'', ''id'', ''hash'', ''return''}"
    using k by (rule memoType_known)
  show "memo ext transaction \<noteq> Panicked (InvalidMemoType u)" for u
    using k by (rule memo_known)
qed

theorem memo_type_dispatch_witness:
  "memoType (with_memo \<lparr>Type = 7, Text = None, Id' = None, Hash = None, RetHash = None\<rparr>
       sample_transaction) = Panicked (InvalidMemoType 7)
   \<and> memo sample_externals
       (with_memo \<lparr>Type = 7, Text = None, Id' = None, Hash = None, RetHash = None\<rparr>
          sample_transaction) = Panicked (InvalidMemoType 7)
   \<and> failed (transactionToMap sample_externals sample_clock
       (with_memo \<lparr>Type = 7, Text = None, Id' = None, Hash = None, RetHash = None\<rparr>
          sample_transaction) 123)
   \<and> panicked (transactionToMap lenient_externals sample_clock
       (with_memo \<lparr>Type = 7, Text = None, Id' = None, Hash = None, RetHash = None\<rparr>
          sample_transaction) 123)
   \<and> memoType sample_transaction = Returned ''text''"
proof -
  define tx where "tx = with_memo
    \<lparr>Type = 7, Text = None, Id' = None, Hash = None, RetHash = None\<rparr> sample_transaction"
  have ty: "Type (Memo (Tx (Envelope tx))) = 7"
    by (simp add: tx_def with_memo_def)
  have unknown: "\<not> known_memo_type (Type (Memo (Tx (Envelope tx))))"
    unfolding ty by (simp add: known_memo_type_def MemoType_defs)
  have refused: "\<not> serializes sample_externals tx"
    unfolding serializes_def sample_externals_def using unknown by simp
  have ser: "serializes lenient_externals tx"
    unfolding serializes_def lenient_externals_def sample_externals_def by simp
  have known: "memoType sample_transaction = Returned ''text''"
    by (simp add: memoType_def sample_transaction_def sample_memo_def MemoType_defs)
  note strict = memo_type_dispatch [of tx sample_externals sample_clock 123,
      THEN conjunct1, THEN mp, OF unknown]
  note lenient = memo_type_dispatch [of tx lenient_externals sample_clock 123,
      THEN conjunct1, THEN mp, OF unknown]
  have a: "memoType tx = Panicked (InvalidMemoType 7)"
    using strict [THEN conjunct1] by (simp only: ty)
  have b: "memo sample_externals tx = Panicked (InvalidMemoType 7)"
    using strict [THEN conjunct2, THEN conjunct1] by (simp only: ty)
  have c: "failed (transactionToMap sample_externals sample_clock tx 123)"
    using strict [THEN conjunct2, THEN conjunct2, THEN conjunct2, THEN conjunct2, THEN mp,
        OF refused] .
  have d: "panicked (transactionToMap lenient_externals sample_clock tx 123)"
    using lenient [THEN conjunct2, THEN conjunct2, THEN conjunct2, THEN conjunct1, THEN mp,
        OF ser] .
  from a b c d known show ?thesis
    unfolding tx_def by (intro conjI)
qed

section \<open>Reading with the success filter\<close>

lemma Select_recorded_error:
  "Err q = Some e \<Longrightarrow> Select ext q dest = (Some e, q, dest)"
  by (simp add: Select_def)

lemma Select_database_error:
  "Err q = None \<Longrightarrow> parent_Select ext (Select_sql q) = Inl e \<Longrightarrow>
     Select ext q dest = (Some e, q\<lparr>sql := Select_sql q, Err := Some e\<rparr>, dest)"
  by (cases "includeFailed q") (simp_all add: Select_def Select_sql_def Let_def)

lemma Select_rows:
  "Err q = None \<Longrightarrow> parent_Select ext (Select_sql q) = Inr rows \<Longrightarrow>
     Select ext q (TransactionsDest old) =
       (Select_loop ext (includeFailed q) rows, q\<lparr>sql := Select_sql q, Err := None\<rparr>,
        TransactionsDest rows)"
  by (cases "includeFailed q") (simp_all add: Select_def Select_sql_def Let_def)

lemma Select_other_dest:
  "Err q = None \<Longrightarrow> parent_Select ext (Select_sql q) = Inr rows \<Longrightarrow>
     Select ext q OtherDest =
       (Some DestIsNotTransactions, q\<lparr>sql := Select_sql q, Err := None\<rparr>, OtherDest)"
  by (cases "includeFailed q") (simp_all add: Select_def Select_sql_def Let_def)

lemma Select_sql_of_q:
  "Err q = None \<Longrightarrow> sql (fst (snd (Select ext q dest))) = Select_sql q"
  by (cases dest; cases "parent_Select ext (Select_sql q)")
     (simp_all add: Select_database_error Select_rows Select_other_dest)

lemma Select_loop_None:
  "Select_loop ext incl rows = None \<longleftrightarrow> (\<forall>t \<in> set rows. Select_check ext incl t = None)"
  by (induction rows) (auto split: option.splits)

lemma Select_loop_Some:
  "Select_loop ext incl rows = Some e \<Longrightarrow> \<exists>t \<in> set rows. Select_check ext incl t = Some e"
  by (induction rows) (auto split: option.splits)

lemma Select_check_decoded:
  assumes "SafeUnmarshalBase64_Result ext (TxResult t) = Inr resultXDR"
  shows "Select_check ext incl t = None \<longleftrightarrow> \<not> corruption_case incl t resultXDR"
    and "Select_check ext incl t = Some e \<Longrightarrow> is_data_corruption e"
  using assms
  by (auto simp: Select_check_def corruption_case_def IsSuccessful_def
      split: if_splits option.splits)

lemma Select_check_undecoded:
  "SafeUnmarshalBase64_Result ext (TxResult t) = Inl e \<Longrightarrow> Select_check ext incl t = Some e"
  by (simp add: Select_check_def)

lemma Select_check_flag:
  "Select_check ext False t = None \<Longrightarrow> IsSuccessful t"
  by (auto simp: Select_check_def split: sum.splits if_splits)

lemma IsSuccessful_iff: "IsSuccessful t \<longleftrightarrow> Successful t \<noteq> Some False"
  by (auto simp: IsSuccessful_def split: option.splits)

lemma strings_Join_snoc:
  "strings_Join (xs @ [p]) sep = (if xs = [] then p else strings_Join xs sep @ sep @ p)"
  by (induction xs sep rule: strings_Join.induct) auto

lemma ToSql_Where:
  "ToSql (sq_Where b pred args) =
     ToSql b @ (if WhereParts b = [] then '' WHERE '' else '' AND '') @ pred"
  by (simp add: ToSql_def sq_Where_def strings_Join_snoc)


lemma unknown_account:
  "ForAccount sample_externals Transactions ''nobody''
     = Transactions\<lparr>Err := Some (External ''sql: no rows in result set'')\<rparr>"
  by (simp add: ForAccount_def sample_externals_def)


lemma known_account:
  "ForAccount sample_externals Transactions ''source''
     = Transactions\<lparr>sql := sq_Where
         (sq_Join selectTransaction
            ''history_transaction_participants htp ON htp.history_transaction_id = ht.id'')
         ''htp.history_account_id = ?'' [Int64 7]\<rparr>"
  by (simp add: ForAccount_def sample_externals_def Transactions_def)

lemma sample_rows_pass: "Select_loop sample_externals incl sample_rows = None"
  by (simp add: sample_rows_def Select_check_def sample_externals_def IsSuccessful_def
      success_payload_def failed_payload_def)


text \<open>The two SQL texts the tests of the package expect.\<close>

lemma TestTransactionSuccessfulOnly_sql:
  "ToSql (sql (fst (snd (Select sample_externals
       (ForAccount sample_externals Transactions ''source'') (TransactionsDest [])))))
     = ''SELECT ht.id, ht.transaction_hash, ht.ledger_sequence, ht.application_order, ht.account, ht.account_sequence, ht.max_fee, COALESCE(ht.fee_charged, ht.max_fee) as fee_charged, ht.operation_count, ht.tx_envelope, ht.tx_result, ht.tx_meta, ht.tx_fee_meta, ht.created_at, ht.updated_at, ht.successful, array_to_string(ht.signatures, ',') AS signatures, ht.memo_type, ht.memo, lower(ht.time_bounds) AS valid_after, upper(ht.time_bounds) AS valid_before, hl.closed_at AS ledger_close_time FROM history_transactions ht LEFT JOIN history_ledgers hl ON ht.ledger_sequence = hl.sequence JOIN history_transaction_participants htp ON htp.history_transaction_id = ht.id WHERE htp.history_account_id = ? AND (ht.successful = true OR ht.successful IS NULL)''"
proof -
  have "Err (ForAccount sample_externals Transactions ''source'') = None"
    unfolding known_account by (simp add: Transactions_def)
  then have "sql (fst (snd (Select sample_externals
       (ForAccount sample_externals Transactions ''source'') (TransactionsDest []))))
     = Select_sql (ForAccount sample_externals Transactions ''source'')"
    by (rule Select_sql_of_q)
  then show ?thesis
    unfolding known_account
    by (simp add: Select_sql_def Transactions_def successPredicate_def
        ToSql_def sq_Where_def sq_Join_def selectTransaction_def)
qed

lemma TestTransactionIncludeFailed_sql:
  "ToSql (sql (fst (snd (Select sample_externals
       (IncludeFailed (ForAccount sample_externals Transactions ''source''))
       (TransactionsDest [])))))
     = ''SELECT ht.id, ht.transaction_hash, ht.ledger_sequence, ht.application_order, ht.account, ht.account_sequence, ht.max_fee, COALESCE(ht.fee_charged, ht.max_fee) as fee_charged, ht.operation_count, ht.tx_envelope, ht.tx_result, ht.tx_meta, ht.tx_fee_meta, ht.created_at, ht.updated_at, ht.successful, array_to_string(ht.signatures, ',') AS signatures, ht.memo_type, ht.memo, lower(ht.time_bounds) AS valid_after, upper(ht.time_bounds) AS valid_before, hl.closed_at AS ledger_close_time FROM history_transactions ht LEFT JOIN history_ledgers hl ON ht.ledger_sequence = hl.sequence JOIN history_transaction_participants htp ON htp.history_transaction_id = ht.id WHERE htp.history_account_id = ?''"
proof -
  have "Err (IncludeFailed (ForAccount sample_externals Transactions ''source'')) = None"
    unfolding known_account by (simp add: Transactions_def IncludeFailed_def)
  then have "sql (fst (snd (Select sample_externals
       (IncludeFailed (ForAccount sample_externals Transactions ''source''))
       (TransactionsDest []))))
     = Select_sql (IncludeFailed (ForAccount sample_externals Transactions ''source''))"
    by (rule Select_sql_of_q)
  then show ?thesis
    unfolding known_account
    by (simp add: Select_sql_def Transactions_def
        IncludeFailed_def ToSql_def sq_Where_def sq_Join_def selectTransaction_def)
qed

text \<open>
  Claim C2, as stated: for every query built by \<open>Transactions()\<close> without
  \<open>IncludeFailed()\<close>, \<open>Select\<close> adds the success predicate as the final \<open>WHERE\<close>
  clause. A query on which an earlier filter recorded an error is such a query, and
  \<open>Select\<close> hands that error back before it touches the query: after \<open>ForAccount\<close> on an
  address the store does not know, \<open>Select\<close> returns the lookup's error and the query has
  no \<open>WHERE\<close> clause at all.
\<close>

theorem Select_after_failed_lookup:
  "fst (Select sample_externals (ForAccount sample_externals Transactions ''nobody'')
         (TransactionsDest []))
     = Some (External ''sql: no rows in result set'')
   \<and> \<not> includeFailed (ForAccount sample_externals Transactions ''nobody'')
   \<and> WhereParts (sql (fst (snd
        (Select sample_externals (ForAccount sample_externals Transactions ''nobody'')
           (TransactionsDest []))))) = []"
  unfolding unknown_account
  by (simp add: Select_def Transactions_def selectTransaction_def)


text \<open>
  Claim C2, amended. When the filter object carries a recorded error, \<open>Select\<close> returns
  that error and changes nothing. When it carries none and \<open>IncludeFailed()\<close> was not
  called, \<open>Select\<close> adds exactly one clause, the success predicate
  \<open>(ht.successful = true OR ht.successful IS NULL)\<close>, after all clauses added before, so
  that it is the final \<open>WHERE\<close> clause of the query and of its SQL text; and when
  \<open>Select\<close> then returns no error, every row it loaded is successful or has an unset
  success flag. When \<open>IncludeFailed()\<close> was called, no clause is added.
\<close>

theorem Select_success_predicate:
  "(\<forall>e. Err q = Some e \<longrightarrow> Select ext q dest = (Some e, q, dest))
   \<and> (Err q = None \<and> \<not> includeFailed q \<longrightarrow>
        sql (fst (snd (Select ext q dest))) = sq_Where (sql q) successPredicate []
        \<and> WhereParts (sql (fst (snd (Select ext q dest))))
            = WhereParts (sql q) @ [(successPredicate, [])]
        \<and> last (WhereParts (sql (fst (snd (Select ext q dest))))) = (successPredicate, [])
        \<and> ToSql (sql (fst (snd (Select ext q dest))))
            = ToSql (sql q) @ (if WhereParts (sql q) = [] then '' WHERE '' else '' AND '')
                @ successPredicate
        \<and> (fst (Select ext q dest) = None \<longrightarrow>
             (\<exists>rows. snd (snd (Select ext q dest)) = TransactionsDest rows
                \<and> (\<forall>t \<in> set rows. Successful t \<noteq> Some False))))
   \<and> (Err q = None \<and> includeFailed q \<longrightarrow> sql (fst (snd (Select ext q dest))) = sql q)"
proof (intro conjI allI impI)
  fix e assume "Err q = Some e"
  then show "Select ext q dest = (Some e, q, dest)" by (rule Select_recorded_error)
next
  assume a: "Err q = None \<and> \<not> includeFailed q"
  then have s: "sql (fst (snd (Select ext q dest))) = sq_Where (sql q) successPredicate []"
    by (simp add: Select_sql_of_q Select_sql_def)
  show "sql (fst (snd (Select ext q dest))) = sq_Where (sql q) successPredicate []" by (rule s)
  show "WhereParts (sql (fst (snd (Select ext q dest))))
            = WhereParts (sql q) @ [(successPredicate, [])]"
    by (simp add: s sq_Where_def)
  show "last (WhereParts (sql (fst (snd (Select ext q dest))))) = (successPredicate, [])"
    by (simp add: s sq_Where_def)
  show "ToSql (sql (fst (snd (Select ext q dest))))
            = ToSql (sql q) @ (if WhereParts (sql q) = [] then '' WHERE '' else '' AND '')
                @ successPredicate"
    by (simp only: s ToSql_Where)
  assume ok: "fst (Select ext q dest) = None"
  show "\<exists>rows. snd (snd (Select ext q dest)) = TransactionsDest rows
                \<and> (\<forall>t \<in> set rows. Successful t \<noteq> Some False)"
  proof (cases "parent_Select ext (Select_sql q)")
    case (Inl e)
    with a ok show ?thesis by (simp add: Select_database_error)
  next
    case (Inr rows)
    show ?thesis
    proof (cases dest)
      case OtherDest
      with a ok Inr show ?thesis by (simp add: Select_other_dest)
    next
      case (TransactionsDest old)
      with a ok Inr have "Select_loop ext False rows = None"
        by (simp add: Select_rows)
      then have "\<forall>t \<in> set rows. Successful t \<noteq> Some False"
        using Select_check_flag by (auto simp: Select_loop_None IsSuccessful_iff)
      with a Inr TransactionsDest show ?thesis by (simp add: Select_rows)
    qed
  qed
next
  assume "Err q = None \<and> includeFailed q"
  then show "sql (fst (snd (Select ext q dest))) = sql q"
    by (simp add: Select_sql_of_q Select_sql_def)
qed

theorem Select_success_predicate_witness:
  "Select sample_externals (ForAccount sample_externals Transactions ''source'')
       (TransactionsDest [])
     = (None,
        (ForAccount sample_externals Transactions ''source'')
          \<lparr>sql := sq_Where (sql (ForAccount sample_externals Transactions ''source''))
                    successPredicate []\<rparr>,
        TransactionsDest sample_rows)
   \<and> sql (fst (snd (Select sample_externals
         (IncludeFailed (ForAccount sample_externals Transactions ''source''))
         (TransactionsDest []))))
     = sql (ForAccount sample_externals Transactions ''source'')
   \<and> Select sample_externals (ForAccount sample_externals Transactions ''nobody'')
        (TransactionsDest [])
     = (Some (External ''sql: no rows in result set''),
        ForAccount sample_externals Transactions ''nobody'', TransactionsDest [])"
proof -
  let ?q = "ForAccount sample_externals Transactions ''source''"
  let ?bad = "ForAccount sample_externals Transactions ''nobody''"
  have q: "Err ?q = None" "\<not> includeFailed ?q"
    unfolding known_account by (simp_all add: Transactions_def)
  have qi: "Err (IncludeFailed ?q) = None" "includeFailed (IncludeFailed ?q)"
    "sql (IncludeFailed ?q) = sql ?q"
    unfolding known_account by (simp_all add: Transactions_def IncludeFailed_def)
  have bad: "Err ?bad = Some (External ''sql: no rows in result set'')"
    by (simp add: unknown_account)
  have db: "parent_Select sample_externals (Select_sql ?q) = Inr sample_rows"
    by (simp add: sample_externals_def)
  have full: "Select sample_externals ?q (TransactionsDest [])
     = (None, ?q\<lparr>sql := Select_sql ?q, Err := None\<rparr>, TransactionsDest sample_rows)"
    using Select_rows [OF q(1) db] q(2) by (simp add: sample_rows_pass)
  have same: "?q\<lparr>sql := Select_sql ?q, Err := None\<rparr>
                = ?q\<lparr>sql := sq_Where (sql ?q) successPredicate []\<rparr>"
    using q by (simp add: Select_sql_def)
  from Select_success_predicate [of ?q sample_externals "TransactionsDest []"]
    Select_success_predicate [of "IncludeFailed ?q" sample_externals "TransactionsDest []"]
    Select_success_predicate [of ?bad sample_externals "TransactionsDest []"]
    q qi bad full same
  show ?thesis by simp
qed

section \<open>The checks on fetched rows\<close>

lemma sample_rows_decode:
  "SafeUnmarshalBase64_Result sample_externals success_payload
     = Inr \<lparr>FeeCharged = 100,
             TransactionResult_Result = \<lparr>Code = TransactionResultCodeTxSuccess\<rparr>\<rparr>"
  "SafeUnmarshalBase64_Result sample_externals failed_payload
     = Inr \<lparr>FeeCharged = 100, TransactionResult_Result = \<lparr>Code = - 1\<rparr>\<rparr>"
  by (simp_all add: sample_externals_def success_payload_def failed_payload_def)

lemma Select_loop_single:
  assumes "t \<in> set rows"
    and "\<forall>u \<in> set rows. u \<noteq> t \<longrightarrow> Select_check ext incl u = None"
  shows "Select_loop ext incl rows = Select_check ext incl t"
  using assms
proof (induction rows)
  case Nil
  then show ?case by simp
next
  case (Cons r rows)
  show ?case
  proof (cases "r = t")
    case True
    show ?thesis
    proof (cases "Select_check ext incl t")
      case None
      with Cons.prems(2) have "\<forall>u \<in> set rows. Select_check ext incl u = None" by auto
      then have "Select_loop ext incl rows = None" by (simp add: Select_loop_None)
      with True None show ?thesis by simp
    next
      case (Some e)
      with True show ?thesis by simp
    qed
  next
    case False
    with Cons show ?thesis by auto
  qed
qed

lemma answering_Select:
  "parent_Select (answering rows) b = Inr rows"
  by (simp add: answering_def)

lemma answering_decode:
  "SafeUnmarshalBase64_Result (answering rows) success_payload
     = Inr \<lparr>FeeCharged = 100,
             TransactionResult_Result = \<lparr>Code = TransactionResultCodeTxSuccess\<rparr>\<rparr>"
  "SafeUnmarshalBase64_Result (answering rows) failed_payload
     = Inr \<lparr>FeeCharged = 100, TransactionResult_Result = \<lparr>Code = - 1\<rparr>\<rparr>"
  "SafeUnmarshalBase64_Result (answering rows) ''result''
     = Inl (External ''xdr: decoding failed'')"
  by (simp_all add: answering_def sample_externals_def success_payload_def failed_payload_def)

lemma queries:
  "Err Transactions = None" "\<not> includeFailed Transactions"
  "Err (IncludeFailed Transactions) = None" "includeFailed (IncludeFailed Transactions)"
  by (simp_all add: IncludeFailed_def Transactions_def)

lemma Select_answering:
  "Err q = None \<Longrightarrow>
     fst (Select (answering rows) q (TransactionsDest old))
       = Select_loop (answering rows) (includeFailed q) rows"
  by (simp add: Select_rows [OF _ answering_Select])

text \<open>
  Claim C3, as stated: \<open>Select\<close> returns a data-corruption error in exactly the three
  cases and no error otherwise, the second case being that the success flag is true. Two
  fetched rows fall outside that. A row whose stored payload does not decode makes
  \<open>Select\<close> return the decoder's error, though its flag is true and failed rows are
  included. A row whose flag is unset and whose decoded result is not success makes
  \<open>Select\<close> return the "successful=true" error, though its flag is not true.
\<close>

theorem Select_other_errors:
  "fst (Select (answering [undecodable_row]) (IncludeFailed Transactions) (TransactionsDest []))
     = Some (External ''xdr: decoding failed'')
   \<and> Successful undecodable_row = Some True
   \<and> fst (Select (answering [unset_failed_row]) (IncludeFailed Transactions)
         (TransactionsDest []))
     = Some (SuccessfulTrueButNotSuccess ''c91d5a'' failed_payload)
   \<and> Successful unset_failed_row = None"
  by (simp add: Select_answering queries Select_check_def answering_decode
      undecodable_row_def unset_failed_row_def IsSuccessful_def
      TransactionResultCodeTxSuccess_def)

text \<open>
  Claim C3, amended. \<open>Select\<close> decodes the stored result payload of every row it
  fetched. For a row whose payload does not decode it returns the decoder's error. For a
  row whose payload decodes it raises a data-corruption error in exactly these cases:
  (1) failed rows were excluded and the decoded result is not success or the stored success
  flag is false; (2) the stored success flag is true or unset and the decoded result is not
  success; (3) the stored success flag is false and the decoded result is success; and no
  error otherwise. \<open>Select\<close> returns no error exactly when every fetched row decodes and
  is in none of the three cases, and the error it returns otherwise is the one raised for a
  fetched row: it is handed to the caller, not dropped.
\<close>

theorem Select_data_corruption:
  assumes "Err q = None"
    and "parent_Select ext (Select_sql q) = Inr rows"
  shows "(fst (Select ext q (TransactionsDest old)) = None \<longleftrightarrow>
           (\<forall>t \<in> set rows.
              \<not> isl (SafeUnmarshalBase64_Result ext (TxResult t))
              \<and> \<not> corruption_case (includeFailed q) t
                    (projr (SafeUnmarshalBase64_Result ext (TxResult t)))))
         \<and> (\<forall>e. fst (Select ext q (TransactionsDest old)) = Some e \<longrightarrow>
               (\<exists>t \<in> set rows. Select_check ext (includeFailed q) t = Some e))
         \<and> (\<forall>t \<in> set rows.
               (\<forall>e. SafeUnmarshalBase64_Result ext (TxResult t) = Inl e \<longrightarrow>
                    Select_check ext (includeFailed q) t = Some e)
               \<and> (\<not> isl (SafeUnmarshalBase64_Result ext (TxResult t)) \<longrightarrow>
                    (Select_check ext (includeFailed q) t = None \<longleftrightarrow>
                       \<not> corruption_case (includeFailed q) t
                           (projr (SafeUnmarshalBase64_Result ext (TxResult t))))
                    \<and> (\<forall>e. Select_check ext (includeFailed q) t = Some e \<longrightarrow>
                           is_data_corruption e)))"
proof -
  let ?incl = "includeFailed q"
  have sel: "fst (Select ext q (TransactionsDest old)) = Select_loop ext ?incl rows"
    by (simp add: Select_rows [OF assms])
  have row: "(\<forall>e. SafeUnmarshalBase64_Result ext (TxResult t) = Inl e \<longrightarrow>
                    Select_check ext ?incl t = Some e)
               \<and> (\<not> isl (SafeUnmarshalBase64_Result ext (TxResult t)) \<longrightarrow>
                    (Select_check ext ?incl t = None \<longleftrightarrow>
                       \<not> corruption_case ?incl t
                           (projr (SafeUnmarshalBase64_Result ext (TxResult t))))
                    \<and> (\<forall>e. Select_check ext ?incl t = Some e \<longrightarrow> is_data_corruption e))"
    for t
  proof (cases "SafeUnmarshalBase64_Result ext (TxResult t)")
    case (Inl e)
    then show ?thesis by (simp add: Select_check_undecoded)
  next
    case (Inr r)
    from Select_check_decoded [OF Inr, of ?incl] Inr show ?thesis by simp
  qed
  have passes: "Select_check ext ?incl t = None \<longleftrightarrow>
      \<not> isl (SafeUnmarshalBase64_Result ext (TxResult t))
      \<and> \<not> corruption_case ?incl t (projr (SafeUnmarshalBase64_Result ext (TxResult t)))"
    for t
  proof (cases "SafeUnmarshalBase64_Result ext (TxResult t)")
    case (Inl e)
    then show ?thesis by (simp add: Select_check_undecoded)
  next
    case (Inr r)
    from Select_check_decoded(1) [OF Inr, of ?incl] Inr show ?thesis by simp
  qed
  have none: "Select_loop ext ?incl rows = None \<longleftrightarrow>
           (\<forall>t \<in> set rows.
              \<not> isl (SafeUnmarshalBase64_Result ext (TxResult t))
              \<and> \<not> corruption_case ?incl t
                    (projr (SafeUnmarshalBase64_Result ext (TxResult t))))"
    unfolding Select_loop_None using passes by simp
  have some: "\<forall>e. Select_loop ext ?incl rows = Some e \<longrightarrow>
               (\<exists>t \<in> set rows. Select_check ext ?incl t = Some e)"
    using Select_loop_Some by blast
  show ?thesis
    unfolding sel
  proof (intro conjI)
    show "Select_loop ext ?incl rows = None \<longleftrightarrow>
           (\<forall>t \<in> set rows.
              \<not> isl (SafeUnmarshalBase64_Result ext (TxResult t))
              \<and> \<not> corruption_case ?incl t
                    (projr (SafeUnmarshalBase64_Result ext (TxResult t))))"
      by (rule none)
    show "\<forall>e. Select_loop ext ?incl rows = Some e \<longrightarrow>
               (\<exists>t \<in> set rows. Select_check ext ?incl t = Some e)"
      by (rule some)
    show "\<forall>t \<in> set rows.
               (\<forall>e. SafeUnmarshalBase64_Result ext (TxResult t) = Inl e \<longrightarrow>
                    Select_check ext ?incl t = Some e)
               \<and> (\<not> isl (SafeUnmarshalBase64_Result ext (TxResult t)) \<longrightarrow>
                    (Select_check ext ?incl t = None \<longleftrightarrow>
                       \<not> corruption_case ?incl t
                           (projr (SafeUnmarshalBase64_Result ext (TxResult t))))
                    \<and> (\<forall>e. Select_check ext ?incl t = Some e \<longrightarrow>
                           is_data_corruption e))"
      using row by blast
  qed
qed

theorem Select_data_corruption_witness:
  "fst (Select (answering [wrongly_failed_row]) (IncludeFailed Transactions)
         (TransactionsDest []))
     = Some (SuccessfulFalseButSuccess ''a2dabf4e'' success_payload)
   \<and> fst (Select (answering [failed_row]) Transactions (TransactionsDest []))
     = Some (IncludeFailedFalseButFlagFailed ''56e3216045'')
   \<and> fst (Select (answering [corrupted_row]) Transactions (TransactionsDest []))
     = Some (IncludeFailedFalseButResultFailed ''aa168f12'' failed_payload)
   \<and> fst (Select (answering (sample_rows @ [corrupted_row])) (IncludeFailed Transactions)
         (TransactionsDest []))
     = Some (SuccessfulTrueButNotSuccess ''aa168f12'' failed_payload)
   \<and> fst (Select (answering [undecodable_row]) Transactions (TransactionsDest []))
     = Some (External ''xdr: decoding failed'')
   \<and> fst (Select (answering [failed_row]) (IncludeFailed Transactions) (TransactionsDest []))
     = None
   \<and> fst (Select (answering sample_rows) Transactions (TransactionsDest [])) = None"
proof -
  have run:
    "fst (Select (answering [wrongly_failed_row]) (IncludeFailed Transactions)
         (TransactionsDest []))
     = Some (SuccessfulFalseButSuccess ''a2dabf4e'' success_payload)"
    "fst (Select (answering [failed_row]) Transactions (TransactionsDest []))
     = Some (IncludeFailedFalseButFlagFailed ''56e3216045'')"
    "fst (Select (answering [corrupted_row]) Transactions (TransactionsDest []))
     = Some (IncludeFailedFalseButResultFailed ''aa168f12'' failed_payload)"
    "fst (Select (answering (sample_rows @ [corrupted_row])) (IncludeFailed Transactions)
         (TransactionsDest []))
     = Some (SuccessfulTrueButNotSuccess ''aa168f12'' failed_payload)"
    "fst (Select (answering [undecodable_row]) Transactions (TransactionsDest []))
     = Some (External ''xdr: decoding failed'')"
    by (simp_all add: Select_answering queries Select_check_def answering_decode
        wrongly_failed_row_def failed_row_def corrupted_row_def undecodable_row_def
        sample_rows_def IsSuccessful_def TransactionResultCodeTxSuccess_def)
  have failed_ok: "\<forall>t \<in> set [failed_row].
      \<not> isl (SafeUnmarshalBase64_Result (answering [failed_row]) (TxResult t))
      \<and> \<not> corruption_case (includeFailed (IncludeFailed Transactions)) t
            (projr (SafeUnmarshalBase64_Result (answering [failed_row]) (TxResult t)))"
    by (simp add: queries failed_row_def answering_decode corruption_case_def
        TransactionResultCodeTxSuccess_def)
  have sample_ok: "\<forall>t \<in> set sample_rows.
      \<not> isl (SafeUnmarshalBase64_Result (answering sample_rows) (TxResult t))
      \<and> \<not> corruption_case (includeFailed Transactions) t
            (projr (SafeUnmarshalBase64_Result (answering sample_rows) (TxResult t)))"
    by (simp add: queries sample_rows_def answering_decode corruption_case_def)
  have n1: "fst (Select (answering [failed_row]) (IncludeFailed Transactions)
              (TransactionsDest [])) = None"
    using Select_data_corruption [OF queries(3) answering_Select, of "[failed_row]" "[]",
        THEN conjunct1, THEN iffD2, OF failed_ok] .
  have n2: "fst (Select (answering sample_rows) Transactions (TransactionsDest [])) = None"
    using Select_data_corruption [OF queries(1) answering_Select, of sample_rows "[]",
        THEN conjunct1, THEN iffD2, OF sample_ok] .
  from run n1 n2 show ?thesis by (intro conjI)
qed

text \<open>
  Claim C10, as stated: a fetched row with an unset success flag whose decoded result is not
  success is reported with the error "successful=true but returned transaction is not
  success", whether failed rows are included or not. With failed rows excluded, the check
  on the decoded result that belongs to the exclusion comes first, and \<open>Select\<close> reports
  the error "include_failed=false but returned transaction is failed" instead.
\<close>

theorem unset_flag_failed_rows_excluded:
  "fst (Select legacy_externals Transactions (TransactionsDest []))
     = Some (IncludeFailedFalseButResultFailed ''aa16'' failed_payload)
   \<and> Successful legacy_failed_row = None
   \<and> Error (IncludeFailedFalseButResultFailed ''aa16'' failed_payload)
       = ''Corrupted data! `include_failed=false` but returned transaction is failed: aa16 AAAAAAAAAGT/////AAAAAQAAAAAAAAAB/////gAAAAA=''"
  by (simp add: Select_def Transactions_def legacy_externals_def legacy_failed_row_def
      Select_check_def sample_externals_def IsSuccessful_def failed_payload_def
      success_payload_def TransactionResultCodeTxSuccess_def)

text \<open>
  Claim C10, amended. \<open>IsSuccessful\<close> treats a row whose success flag is unset as
  successful. In \<open>Select\<close>, when such a row is the only fetched row that fails a check and
  its decoded result is not success, it is reported as corrupted data: with the error
  "successful=true but returned transaction is not success" when failed rows are included,
  and with the error "include_failed=false but returned transaction is failed" when they
  are excluded. When its decoded result is success, it passes all checks.
\<close>

theorem Select_unset_flag:
  assumes "Err q = None"
    and "parent_Select ext (Select_sql q) = Inr rows"
    and "t \<in> set rows"
    and "\<forall>u \<in> set rows. u \<noteq> t \<longrightarrow> Select_check ext (includeFailed q) u = None"
    and "Successful t = None"
    and "SafeUnmarshalBase64_Result ext (TxResult t) = Inr resultXDR"
  shows "IsSuccessful t
         \<and> (Code (TransactionResult_Result resultXDR) \<noteq> TransactionResultCodeTxSuccess
              \<and> includeFailed q \<longrightarrow>
                fst (Select ext q (TransactionsDest old))
                  = Some (SuccessfulTrueButNotSuccess (TransactionHash t) (TxResult t)))
         \<and> (Code (TransactionResult_Result resultXDR) \<noteq> TransactionResultCodeTxSuccess
              \<and> \<not> includeFailed q \<longrightarrow>
                fst (Select ext q (TransactionsDest old))
                  = Some (IncludeFailedFalseButResultFailed (TransactionHash t) (TxResult t)))
         \<and> (Code (TransactionResult_Result resultXDR) = TransactionResultCodeTxSuccess \<longrightarrow>
                fst (Select ext q (TransactionsDest old)) = None)"
proof -
  have s: "IsSuccessful t" using assms(5) by (simp add: IsSuccessful_def)
  have "fst (Select ext q (TransactionsDest old)) = Select_check ext (includeFailed q) t"
    by (simp add: Select_rows [OF assms(1,2)] Select_loop_single [OF assms(3,4)])
  then show ?thesis
    using s assms(6) by (auto simp: Select_check_def)
qed

theorem Select_unset_flag_witness:
  "IsSuccessful legacy_failed_row
   \<and> fst (Select legacy_externals (IncludeFailed Transactions) (TransactionsDest []))
       = Some (SuccessfulTrueButNotSuccess ''aa16'' failed_payload)
   \<and> fst (Select legacy_externals Transactions (TransactionsDest []))
       = Some (IncludeFailedFalseButResultFailed ''aa16'' failed_payload)
   \<and> fst (Select sample_externals Transactions (TransactionsDest [])) = None"
proof -
  have q: "Err Transactions = None" "\<not> includeFailed Transactions"
    "Err (IncludeFailed Transactions) = None" "includeFailed (IncludeFailed Transactions)"
    by (simp_all add: IncludeFailed_def Transactions_def)
  have db: "parent_Select legacy_externals (Select_sql q) = Inr [legacy_failed_row]" for q
    by (simp add: legacy_externals_def)
  have db': "parent_Select sample_externals (Select_sql q) = Inr sample_rows" for q
    by (simp add: sample_externals_def)
  have flag: "Successful legacy_failed_row = None" "TransactionHash legacy_failed_row = ''aa16''"
    "TxResult legacy_failed_row = failed_payload"
    by (simp_all add: legacy_failed_row_def)
  have dec: "SafeUnmarshalBase64_Result legacy_externals (TxResult legacy_failed_row)
     = Inr \<lparr>FeeCharged = 100, TransactionResult_Result = \<lparr>Code = - 1\<rparr>\<rparr>"
    by (simp add: legacy_externals_def flag sample_rows_decode)
  have second: "sample_rows ! 1 \<in> set sample_rows" "Successful (sample_rows ! 1) = None"
    "SafeUnmarshalBase64_Result sample_externals (TxResult (sample_rows ! 1))
       = Inr \<lparr>FeeCharged = 100,
               TransactionResult_Result = \<lparr>Code = TransactionResultCodeTxSuccess\<rparr>\<rparr>"
    "\<forall>u \<in> set sample_rows. u \<noteq> sample_rows ! 1 \<longrightarrow>
        Select_check sample_externals (includeFailed Transactions) u = None"
    by (simp_all add: sample_rows_def sample_rows_decode Select_check_def IsSuccessful_def)
  from Select_unset_flag [OF q(3) db, of legacy_failed_row _ "[]", OF _ _ flag(1) dec]
    Select_unset_flag [OF q(1) db, of legacy_failed_row _ "[]", OF _ _ flag(1) dec]
    Select_unset_flag [OF q(1) db' second(1) second(4) second(2) second(3), of "[]"]
    q flag
  show ?thesis by (simp add: TransactionResultCodeTxSuccess_def)
qed

section \<open>Restricting a query to a ledger\<close>

lemma int32_id: "- (2 ^ 31) \<le> x \<Longrightarrow> x < 2 ^ 31 \<Longrightarrow> int32 x = x"
  unfolding int32_def by (rule signed_take_bit_int_eq_self) simp_all

lemma ToInt64_ledger:
  "0 \<le> seq \<Longrightarrow>
     ToInt64 \<lparr>LedgerSequence = seq, TransactionOrder = 0, OperationOrder = 0\<rparr>
       = Returned (pack seq 0 0)"
  by (simp add: ToInt64_def TransactionMask_def OperationMask_def)

lemma pack_range:
  assumes "0 \<le> t" "t \<le> TransactionMask" "0 \<le> op'" "op' \<le> OperationMask"
  shows "pack seq 0 0 \<le> pack s t op' \<and> pack s t op' < pack (seq + 1) 0 0 \<longleftrightarrow> s = seq"
  using assms unfolding pack_def TransactionMask_def OperationMask_def by auto

text \<open>
  At the largest \<open>int32\<close> the sequence after it wraps to a negative number, which the
  order key rejects.
\<close>

lemma ForLedger_last_ledger:
  "LedgerBySequence ext (2 ^ 31 - 1) = None \<Longrightarrow>
     ForLedger ext q (2 ^ 31 - 1) = Panicked InvalidLedgerSequence"
  by (simp add: ForLedger_def ToInt64_def int32_def TransactionMask_def OperationMask_def Let_def)

text \<open>
  Claim C7, as stated: for every ledger sequence \<open>seq\<close>, \<open>ForLedger(seq)\<close> adds the
  predicate \<open>id >= pack(seq,0,0) AND id < pack(seq+1,0,0)\<close>. \<open>ForLedger\<close> first looks the
  ledger up; for a sequence the store has no ledger for, it records the lookup's error and
  returns the query with no predicate added.
\<close>

theorem ForLedger_unknown_ledger:
  "ForLedger sample_externals Transactions 5
     = Returned (Transactions\<lparr>Err := Some (External ''sql: no rows in result set'')\<rparr>)
   \<and> WhereParts (sql Transactions) = []"
  by (simp add: ForLedger_def sample_externals_def Transactions_def selectTransaction_def)

text \<open>
  Claim C7, amended. When the lookup of the ledger fails, \<open>ForLedger(seq)\<close> records the
  error and adds nothing. When it succeeds and \<open>seq\<close> is at least 0 and below the largest
  \<open>int32\<close>, \<open>ForLedger(seq)\<close> adds the predicate \<open>ht.id >= ? AND ht.id < ?\<close> with the
  arguments \<open>pack(seq,0,0)\<close> and \<open>pack(seq+1,0,0)\<close>, and this half-open range holds
  exactly the keys of that ledger: a key \<open>pack(s,t,o)\<close> with valid transaction and
  operation indices lies in it if and only if \<open>s = seq\<close>.
\<close>

theorem ForLedger_range:
  "(\<forall>e. LedgerBySequence ext seq = Some e \<longrightarrow>
        ForLedger ext q seq = Returned (q\<lparr>Err := Some e\<rparr>))
   \<and> (LedgerBySequence ext seq = None \<and> 0 \<le> seq \<and> seq < 2 ^ 31 - 1 \<longrightarrow>
        ForLedger ext q seq =
          Returned (q\<lparr>Err := None,
            sql := sq_Where (sql q) ''ht.id >= ? AND ht.id < ?''
                     [Int64 (pack seq 0 0), Int64 (pack (seq + 1) 0 0)]\<rparr>)
        \<and> (\<forall>s t op'. 0 \<le> t \<and> t \<le> TransactionMask \<and> 0 \<le> op' \<and> op' \<le> OperationMask \<longrightarrow>
              (pack seq 0 0 \<le> pack s t op' \<and> pack s t op' < pack (seq + 1) 0 0
                 \<longleftrightarrow> s = seq)))"
proof (intro conjI allI impI)
  fix e assume "LedgerBySequence ext seq = Some e"
  then show "ForLedger ext q seq = Returned (q\<lparr>Err := Some e\<rparr>)"
    by (simp add: ForLedger_def)
next
  assume a: "LedgerBySequence ext seq = None \<and> 0 \<le> seq \<and> seq < 2 ^ 31 - 1"
  then have "int32 (seq + 1) = seq + 1" by (intro int32_id) simp_all
  with a show "ForLedger ext q seq =
          Returned (q\<lparr>Err := None,
            sql := sq_Where (sql q) ''ht.id >= ? AND ht.id < ?''
                     [Int64 (pack seq 0 0), Int64 (pack (seq + 1) 0 0)]\<rparr>)"
    by (simp add: ForLedger_def ToInt64_ledger Let_def)
next
  fix s t op'
  assume "0 \<le> t \<and> t \<le> TransactionMask \<and> 0 \<le> op' \<and> op' \<le> OperationMask"
  then show "pack seq 0 0 \<le> pack s t op' \<and> pack s t op' < pack (seq + 1) 0 0 \<longleftrightarrow> s = seq"
    using pack_range by blast
qed

theorem ForLedger_range_witness:
  "ForLedger sample_externals Transactions 123 =
     Returned (Transactions\<lparr>Err := None,
       sql := sq_Where (sql Transactions) ''ht.id >= ? AND ht.id < ?''
                [Int64 528280977408, Int64 532575944704]\<rparr>)
   \<and> 528280977408 \<le> pack 123 2 0 \<and> pack 123 2 0 < 532575944704
   \<and> ForLedger sample_externals Transactions 5
       = Returned (Transactions\<lparr>Err := Some (External ''sql: no rows in result set'')\<rparr>)"
proof -
  have ok: "LedgerBySequence sample_externals 123 = None"
    and bad: "LedgerBySequence sample_externals 5 = Some (External ''sql: no rows in result set'')"
    by (simp_all add: sample_externals_def)
  have p: "pack 123 0 0 = 528280977408" "pack (123 + 1) 0 0 = 532575944704"
    by (simp_all add: pack_def)
  have m: "(0::int) \<le> 2" "2 \<le> TransactionMask" "(0::int) \<le> 0" "0 \<le> OperationMask"
    by (simp_all add: TransactionMask_def OperationMask_def)
  from ForLedger_range [of sample_externals 123 Transactions] ok
  have "ForLedger sample_externals Transactions 123 =
          Returned (Transactions\<lparr>Err := None,
            sql := sq_Where (sql Transactions) ''ht.id >= ? AND ht.id < ?''
                     [Int64 (pack 123 0 0), Int64 (pack (123 + 1) 0 0)]\<rparr>)"
    and "pack 123 0 0 \<le> pack 123 2 0 \<and> pack 123 2 0 < pack (123 + 1) 0 0"
    using m by simp_all
  moreover from ForLedger_range [of sample_externals 5 Transactions] bad
  have "ForLedger sample_externals Transactions 5
       = Returned (Transactions\<lparr>Err := Some (External ''sql: no rows in result set'')\<rparr>)"
    by simp
  ultimately show ?thesis using p by simp
qed

section \<open>The verdict of the consistency check\<close>

lemma row_equal_columns: "row_equal a b \<longleftrightarrow> columns a = columns b"
  by (cases a, cases b) (auto simp: row_equal_def columns_def)

lemma rows_match_columns: "rows_match as bs \<longleftrightarrow> map columns as = map columns bs"
  by (induction as bs rule: rows_match.induct) (auto simp: row_equal_columns)

lemma rows_match_nth:
  "rows_match as bs \<longleftrightarrow>
     length as = length bs \<and> (\<forall>i < length as. row_equal (as ! i) (bs ! i))"
  by (induction as bs rule: rows_match.induct) (auto simp: less_Suc_eq_0_disj)

lemma verdict_iff_columns:
  "fst (CheckExpTransactions store seq) \<longleftrightarrow>
     map columns (ledger_rows (history_transactions store) seq)
       = map columns (ledger_rows (exp_history_transactions store) seq)"
proof -
  have "length a \<noteq> length b \<Longrightarrow> map columns a \<noteq> map columns b" for a b :: "TransactionRow list"
    by (metis length_map)
  then show ?thesis
    by (auto simp: CheckExpTransactions_def Let_def rows_match_columns)
qed

lemma mset_ledger_rows:
  "mset (map columns (ledger_rows table seq))
     = image_mset columns (filter_mset (in_ledger seq) (mset table))"
  by (simp add: ledger_rows_def)

lemma mutation_changes_rows:
  assumes i: "i < length table"
    and inl: "in_ledger seq (table ! i)"
    and diff: "columns r' \<noteq> columns (table ! i)"
  shows "mset (map columns (ledger_rows (table[i := r']) seq))
           \<noteq> mset (map columns (ledger_rows table seq))"
proof -
  let ?r = "table ! i"
  let ?rest = "mset table - {#?r#}"
  let ?X = "image_mset columns (filter_mset (in_ledger seq) ?rest)"
  have mem: "?r \<in># mset table" using i by simp
  have old: "mset table = add_mset ?r ?rest" using mem by simp
  have new: "mset (table[i := r']) = add_mset r' ?rest" using i by (simp add: mset_update)
  have o: "mset (map columns (ledger_rows table seq)) = add_mset (columns ?r) ?X"
    unfolding mset_ledger_rows by (subst old) (simp add: inl)
  have n: "mset (map columns (ledger_rows (table[i := r']) seq))
             = (if in_ledger seq r' then add_mset (columns r') ?X else ?X)"
    unfolding mset_ledger_rows new by simp
  show ?thesis
  proof (cases "in_ledger seq r'")
    case True
    with o n diff show ?thesis by simp
  next
    case False
    have "size ?X \<noteq> size (add_mset (columns ?r) ?X)" by simp
    then have "?X \<noteq> add_mset (columns ?r) ?X" by metis
    with False o n show ?thesis by simp
  qed
qed

lemma filter_key_distinct:
  "distinct (map f xs) \<Longrightarrow> k \<in> set xs \<Longrightarrow> filter (\<lambda>x. f k = f x) xs = [k]"
proof (induction xs)
  case Nil
  then show ?case by simp
next
  case (Cons a xs)
  show ?case
  proof (cases "a = k")
    case True
    with Cons.prems have "\<forall>x \<in> set xs. f k \<noteq> f x" by (auto simp: image_iff)
    then have "filter (\<lambda>x. f k = f x) xs = []" by (simp add: filter_empty_conv)
    with True show ?thesis by simp
  next
    case False
    with Cons.prems have "k \<in> set xs" "f k \<noteq> f a" by (auto simp: image_iff)
    with Cons show ?thesis by simp
  qed
qed

lemma sort_key_unique:
  assumes m: "mset xs = mset ys" and d: "distinct (map f xs)"
  shows "sort_key f xs = sort_key f ys"
proof (rule properties_for_sort_key)
  show "mset (sort_key f ys) = mset xs" using m by simp
  show "sorted (map f (sort_key f ys))" by simp
  fix k assume k: "k \<in> set (sort_key f ys)"
  have dm: "distinct (map f (sort_key f ys))"
  proof -
    have "mset (map f (sort_key f ys)) = mset (map f xs)" using m by simp
    then show ?thesis using d by (metis distinct_count_atmost_1 set_mset_mset)
  qed
  have kx: "k \<in> set xs" using k m by (metis mset_eq_setD set_sort)
  show "filter (\<lambda>x. f k = f x) (sort_key f ys) = filter (\<lambda>x. f k = f x) xs"
    using filter_key_distinct [OF dm k] filter_key_distinct [OF d kx] by simp
qed

lemma same_rows_same_ledger_rows:
  assumes "filter_mset (in_ledger seq) (mset a) = filter_mset (in_ledger seq) (mset b)"
    and "distinct (map row_id (filter (in_ledger seq) a))"
  shows "ledger_rows a seq = ledger_rows b seq"
  unfolding ledger_rows_def
  by (rule sort_key_unique) (use assms in simp_all)

lemma sample_ledger_rows:
  "ledger_rows (history_transactions sample_store) 123
     = [written_later stored_row, written_later other_stored_row]"
  "ledger_rows (exp_history_transactions sample_store) 123 = [stored_row, other_stored_row]"
  by (simp_all add: sample_store_def ledger_rows_def in_ledger_def pack_def stored_row_def
      other_stored_row_def written_later_def)

lemma sample_verdict: "fst (CheckExpTransactions sample_store 123)"
  by (simp add: CheckExpTransactions_def sample_ledger_rows row_equal_def written_later_def)

text \<open>Changing any one compared column of a row makes it unequal to the row it was.\<close>

lemma column_mutations:
  "v1 \<noteq> row_id r \<Longrightarrow> \<not> row_equal (r\<lparr>row_id := v1\<rparr>) r"
  "v2 \<noteq> row_hash r \<Longrightarrow> \<not> row_equal (r\<lparr>row_hash := v2\<rparr>) r"
  "v3 \<noteq> row_sourceAccount r \<Longrightarrow> \<not> row_equal (r\<lparr>row_sourceAccount := v3\<rparr>) r"
  "v4 \<noteq> row_sourceAccountSequence r \<Longrightarrow> \<not> row_equal (r\<lparr>row_sourceAccountSequence := v4\<rparr>) r"
  "v5 \<noteq> row_feeMax r \<Longrightarrow> \<not> row_equal (r\<lparr>row_feeMax := v5\<rparr>) r"
  "v6 \<noteq> row_feeCharged r \<Longrightarrow> \<not> row_equal (r\<lparr>row_feeCharged := v6\<rparr>) r"
  "v7 \<noteq> row_operationCount r \<Longrightarrow> \<not> row_equal (r\<lparr>row_operationCount := v7\<rparr>) r"
  "v8 \<noteq> row_envelopeBlob r \<Longrightarrow> \<not> row_equal (r\<lparr>row_envelopeBlob := v8\<rparr>) r"
  "v9 \<noteq> row_resultBlob r \<Longrightarrow> \<not> row_equal (r\<lparr>row_resultBlob := v9\<rparr>) r"
  "v10 \<noteq> row_metaBlob r \<Longrightarrow> \<not> row_equal (r\<lparr>row_metaBlob := v10\<rparr>) r"
  "v11 \<noteq> row_feeChangesBlob r \<Longrightarrow> \<not> row_equal (r\<lparr>row_feeChangesBlob := v11\<rparr>) r"
  "v12 \<noteq> row_signatures r \<Longrightarrow> \<not> row_equal (r\<lparr>row_signatures := v12\<rparr>) r"
  "v13 \<noteq> row_validAfter r \<Longrightarrow> \<not> row_equal (r\<lparr>row_validAfter := v13\<rparr>) r"
  "v14 \<noteq> row_validBefore r \<Longrightarrow> \<not> row_equal (r\<lparr>row_validBefore := v14\<rparr>) r"
  "v15 \<noteq> row_memoType r \<Longrightarrow> \<not> row_equal (r\<lparr>row_memoType := v15\<rparr>) r"
  "v16 \<noteq> row_memoValue r \<Longrightarrow> \<not> row_equal (r\<lparr>row_memoValue := v16\<rparr>) r"
  "v17 \<noteq> row_successful r \<Longrightarrow> \<not> row_equal (r\<lparr>row_successful := v17\<rparr>) r"
  by (simp_all add: row_equal_def)

text \<open>
  Claim C9. For a ledger sequence, the verdict is true exactly when the rows of that ledger
  in the legacy table and in the shadow table, each ordered by id, have the same number of
  rows and agree row by row in every compared column (id, hash, ledger sequence,
  application order, account, account sequence, the two fees, operation count, the four
  blobs, the signatures with their order, the time bounds, memo type, memo and success
  flag). So it is true when the two tables hold identical rows for the ledger, also when
  both hold none, and false when the sizes differ or one column of one row differs. When
  the verdict is true and one row of the ledger in the legacy table is replaced by a row
  that differs from it in a compared column, the other rows staying as they are, the
  verdict becomes false, and it is true again once the row is put back. The check leaves
  the store as it is, and running it again gives the same verdict.
\<close>

theorem CheckExpTransactions_verdicts:
  "(fst (CheckExpTransactions store seq) \<longleftrightarrow>
      length (ledger_rows (history_transactions store) seq)
        = length (ledger_rows (exp_history_transactions store) seq)
      \<and> (\<forall>i < length (ledger_rows (history_transactions store) seq).
            row_equal (ledger_rows (history_transactions store) seq ! i)
                      (ledger_rows (exp_history_transactions store) seq ! i)))
   \<and> (filter_mset (in_ledger seq) (mset (history_transactions store))
         = filter_mset (in_ledger seq) (mset (exp_history_transactions store))
       \<and> distinct (map row_id (filter (in_ledger seq) (history_transactions store))) \<longrightarrow>
        fst (CheckExpTransactions store seq))
   \<and> (\<forall>i r'. fst (CheckExpTransactions store seq)
          \<and> i < length (history_transactions store)
          \<and> in_ledger seq (history_transactions store ! i)
          \<and> \<not> row_equal r' (history_transactions store ! i) \<longrightarrow>
        \<not> fst (CheckExpTransactions
                 (store\<lparr>history_transactions := (history_transactions store)[i := r']\<rparr>) seq)
        \<and> fst (CheckExpTransactions
                 (store\<lparr>history_transactions :=
                    ((history_transactions store)[i := r'])
                      [i := history_transactions store ! i]\<rparr>) seq))
   \<and> snd (CheckExpTransactions store seq) = store
   \<and> CheckExpTransactions (snd (CheckExpTransactions store seq)) seq
       = CheckExpTransactions store seq"
proof (intro conjI allI impI)
  show "fst (CheckExpTransactions store seq) \<longleftrightarrow>
      length (ledger_rows (history_transactions store) seq)
        = length (ledger_rows (exp_history_transactions store) seq)
      \<and> (\<forall>i < length (ledger_rows (history_transactions store) seq).
            row_equal (ledger_rows (history_transactions store) seq ! i)
                      (ledger_rows (exp_history_transactions store) seq ! i))"
    by (auto simp: CheckExpTransactions_def Let_def rows_match_nth)
next
  assume "filter_mset (in_ledger seq) (mset (history_transactions store))
         = filter_mset (in_ledger seq) (mset (exp_history_transactions store))
       \<and> distinct (map row_id (filter (in_ledger seq) (history_transactions store)))"
  then have "ledger_rows (history_transactions store) seq
        = ledger_rows (exp_history_transactions store) seq"
    by (intro same_rows_same_ledger_rows) simp_all
  then show "fst (CheckExpTransactions store seq)"
    by (simp add: verdict_iff_columns)
next
  fix i r'
  assume a: "fst (CheckExpTransactions store seq)
          \<and> i < length (history_transactions store)
          \<and> in_ledger seq (history_transactions store ! i)
          \<and> \<not> row_equal r' (history_transactions store ! i)"
  let ?T = "history_transactions store"
  from a have eq: "map columns (ledger_rows ?T seq)
       = map columns (ledger_rows (exp_history_transactions store) seq)"
    by (simp add: verdict_iff_columns)
  from a have "mset (map columns (ledger_rows (?T[i := r']) seq))
           \<noteq> mset (map columns (ledger_rows ?T seq))"
    by (intro mutation_changes_rows) (simp_all add: row_equal_columns)
  then have "map columns (ledger_rows (?T[i := r']) seq) \<noteq> map columns (ledger_rows ?T seq)"
    by metis
  with eq show "\<not> fst (CheckExpTransactions (store\<lparr>history_transactions := ?T[i := r']\<rparr>) seq)"
    by (simp add: verdict_iff_columns)
  have "(?T[i := r'])[i := ?T ! i] = ?T" by simp
  with a show "fst (CheckExpTransactions
                 (store\<lparr>history_transactions := (?T[i := r'])[i := ?T ! i]\<rparr>) seq)"
    by simp
next
  show "snd (CheckExpTransactions store seq) = store"
    by (simp add: CheckExpTransactions_def Let_def)
  then show "CheckExpTransactions (snd (CheckExpTransactions store seq)) seq
       = CheckExpTransactions store seq" by simp
qed

theorem CheckExpTransactions_verdicts_witness:
  "fst (CheckExpTransactions sample_store 123)
   \<and> \<not> fst (CheckExpTransactions
        (sample_store\<lparr>history_transactions := (history_transactions sample_store)
           [1 := (written_later other_stored_row)\<lparr>row_hash := ''hash''\<rparr>]\<rparr>) 123)
   \<and> fst (CheckExpTransactions
        (sample_store\<lparr>history_transactions := ((history_transactions sample_store)
           [1 := (written_later other_stored_row)\<lparr>row_hash := ''hash''\<rparr>])
           [1 := history_transactions sample_store ! 1]\<rparr>) 123)
   \<and> fst (CheckExpTransactions \<lparr>history_transactions = [], exp_history_transactions = []\<rparr> 123)
   \<and> \<not> fst (CheckExpTransactions
        \<lparr>history_transactions = [stored_row], exp_history_transactions = []\<rparr> 123)
   \<and> snd (CheckExpTransactions sample_store 123) = sample_store"
proof -
  let ?r' = "(written_later other_stored_row)\<lparr>row_hash := ''hash''\<rparr>"
  have i: "1 < length (history_transactions sample_store)"
    and row: "history_transactions sample_store ! 1 = written_later other_stored_row"
    by (simp_all add: sample_store_def)
  have inl: "in_ledger 123 (history_transactions sample_store ! 1)"
    unfolding row by (simp add: in_ledger_def pack_def written_later_def other_stored_row_def)
  have diff: "\<not> row_equal ?r' (history_transactions sample_store ! 1)"
    unfolding row by (rule column_mutations) (simp add: written_later_def other_stored_row_def)
  have empty: "length (ledger_rows (history_transactions
        \<lparr>history_transactions = [], exp_history_transactions = []\<rparr>) 123) = 0"
    "length (ledger_rows (exp_history_transactions
        \<lparr>history_transactions = [], exp_history_transactions = []\<rparr>) 123) = 0"
    by (simp_all add: ledger_rows_def)
  have one: "length (ledger_rows (history_transactions
        \<lparr>history_transactions = [stored_row], exp_history_transactions = []\<rparr>) 123) = 1"
    "length (ledger_rows (exp_history_transactions
        \<lparr>history_transactions = [stored_row], exp_history_transactions = []\<rparr>) 123) = 0"
    by (simp_all add: ledger_rows_def in_ledger_def pack_def stored_row_def)
  from CheckExpTransactions_verdicts [of sample_store 123] sample_verdict i inl diff
  have "\<not> fst (CheckExpTransactions
        (sample_store\<lparr>history_transactions := (history_transactions sample_store)
           [1 := ?r']\<rparr>) 123)"
    and "fst (CheckExpTransactions
        (sample_store\<lparr>history_transactions := ((history_transactions sample_store)
           [1 := ?r'])[1 := history_transactions sample_store ! 1]\<rparr>) 123)"
    and "snd (CheckExpTransactions sample_store 123) = sample_store"
    by blast+
  moreover from CheckExpTransactions_verdicts
      [of "\<lparr>history_transactions = [], exp_history_transactions = []\<rparr>" 123] empty
  have "fst (CheckExpTransactions
      \<lparr>history_transactions = [], exp_history_transactions = []\<rparr> 123)"
    by simp
  moreover from CheckExpTransactions_verdicts
      [of "\<lparr>history_transactions = [stored_row], exp_history_transactions = []\<rparr>" 123] one
  have "\<not> fst (CheckExpTransactions
        \<lparr>history_transactions = [stored_row], exp_history_transactions = []\<rparr> 123)"
    by simp
  ultimately show ?thesis using sample_verdict by blast
qed

end
